theory Spec2Isabelle
  imports
    Complex_Main
    "HOL-Library.AList"
    "HOL-Library.Multiset"
    "HOL-Library.Char_ord"
    "HOL-Library.List_Lexorder"
begin

section \<open>Python values\<close>

text \<open>
  The three scripts handle values read from GeoJSON documents and cells of pandas tables.
  A scalar is what a table cell or a JSON leaf can hold; a \<open>pyval\<close> adds the two JSON
  containers. A Python \<open>dict\<close> with string keys is an association list in insertion
  order; a Python \<open>str\<close> is a list of characters (code points below 256, which covers
  every character the scripts name).
\<close>

record carimbo =
  ano :: int
  mes :: int
  dia :: int

datatype escalar =
    Nulo                \<comment> \<open>\<open>None\<close>\<close>
  | NaN                 \<comment> \<open>\<open>float('nan')\<close>\<close>
  | NaT                 \<comment> \<open>\<open>pd.NaT\<close>\<close>
  | Booleano bool
  | Numero real         \<comment> \<open>\<open>int\<close> or \<open>float\<close>\<close>
  | Texto string
  | Instante carimbo    \<comment> \<open>\<open>pd.Timestamp\<close>\<close>
  | DataHora carimbo    \<comment> \<open>\<open>datetime.datetime\<close>\<close>

datatype pyval =
    Esc escalar
  | PyList "pyval list"
  | PyDict "(string \<times> pyval) list"

datatype erro =
    ValueError
  | TypeError
  | AttributeError
  | KeyError
  | IndexError
  | ZeroDivisionError
  | OverflowError
  | ErroBiblioteca      \<comment> \<open>any exception raised inside pandas\<close>

text \<open>
  The pandas functions the classifier calls are not part of the repository; they are
  parameters of the model. \<open>to_datetime s\<close> is \<open>pd.to_datetime(s, errors='coerce')\<close>
  (\<open>Inr None\<close> is \<open>NaT\<close>), \<open>timestamp_de t\<close> is \<open>pd.Timestamp(t)\<close> on a
  \<open>datetime\<close>, and \<open>isna_lista xs\<close> is the truth value Python gives to
  \<open>pd.isna(xs)\<close> on a list, which is an array and may have no truth value at all;
  \<open>notna_lista xs\<close> is the same of \<open>pd.notna(xs)\<close>.
\<close>

record pandas =
  to_datetime :: "string \<Rightarrow> erro + carimbo option"
  timestamp_de :: "carimbo \<Rightarrow> erro + carimbo"
  isna_lista :: "pyval list \<Rightarrow> erro + bool"
  notna_lista :: "pyval list \<Rightarrow> erro + bool"

fun isna_escalar :: "escalar \<Rightarrow> bool" where
  "isna_escalar Nulo = True"
| "isna_escalar NaN = True"
| "isna_escalar NaT = True"
| "isna_escalar _ = False"

fun pd_isna :: "pandas \<Rightarrow> pyval \<Rightarrow> erro + bool" where
  "pd_isna L (Esc e) = Inr (isna_escalar e)"
| "pd_isna L (PyList xs) = isna_lista L xs"
| "pd_isna L (PyDict kvs) = Inr False"

fun pd_notna :: "pandas \<Rightarrow> pyval \<Rightarrow> erro + bool" where
  "pd_notna L (Esc e) = Inr (\<not> isna_escalar e)"
| "pd_notna L (PyList xs) = notna_lista L xs"
| "pd_notna L (PyDict kvs) = Inr True"

section \<open>Season classifier\<close>

text \<open>
  \<open>determinar_estacao_hemisferio_sul\<close>, identical in
  \<open>contar_ocorrencias_por_bairro.py\<close> and \<open>extrair_ocorrencias_por_estacao.py\<close>.
  The chain of comparisons on month and day is \<open>estacao_de_mes_dia\<close>; the conversion of
  the argument to a timestamp is \<open>corpo_determinar_estacao\<close>, the body of the
  \<open>try\<close>; the function itself turns every exception of the body into \<open>None\<close>.
\<close>

definition estacoes :: "string list" where
  "estacoes = [''verao'', ''outono'', ''inverno'', ''primavera'']"

definition estacao_de_mes_dia :: "int \<Rightarrow> int \<Rightarrow> string option" where
  "estacao_de_mes_dia m d =
    (if m = 12 \<and> d \<ge> 21 then Some ''verao''
     else if m \<in> set [1, 2] then Some ''verao''
     else if m = 3 \<and> d < 20 then Some ''verao''
     else if m = 3 \<and> d \<ge> 20 then Some ''outono''
     else if m \<in> set [4, 5] then Some ''outono''
     else if m = 6 \<and> d < 20 then Some ''outono''
     else if m = 6 \<and> d \<ge> 20 then Some ''inverno''
     else if m \<in> set [7, 8] then Some ''inverno''
     else if m = 9 \<and> d < 22 then Some ''inverno''
     else if m = 9 \<and> d \<ge> 22 then Some ''primavera''
     else if m \<in> set [10, 11] then Some ''primavera''
     else if m = 12 \<and> d < 21 then Some ''primavera''
     else None)"

definition estacao_de_carimbo :: "carimbo \<Rightarrow> string option" where
  "estacao_de_carimbo t = estacao_de_mes_dia (mes t) (dia t)"

definition corpo_determinar_estacao :: "pandas \<Rightarrow> pyval \<Rightarrow> erro + string option" where
  "corpo_determinar_estacao L data_valor =
    (case pd_isna L data_valor of
       Inl e \<Rightarrow> Inl e
     | Inr True \<Rightarrow> Inr None
     | Inr False \<Rightarrow>
        (case data_valor of
           Esc (Instante t) \<Rightarrow> Inr (estacao_de_carimbo t)
         | Esc (DataHora t) \<Rightarrow>
             (case timestamp_de L t of
                Inl e \<Rightarrow> Inl e
              | Inr d \<Rightarrow> Inr (estacao_de_carimbo d))
         | Esc (Texto s) \<Rightarrow>
             (case to_datetime L s of
                Inl e \<Rightarrow> Inl e
              | Inr None \<Rightarrow> Inr None
              | Inr (Some d) \<Rightarrow> Inr (estacao_de_carimbo d))
         | _ \<Rightarrow> Inr None))"

definition determinar_estacao_hemisferio_sul :: "pandas \<Rightarrow> pyval \<Rightarrow> erro + string option" where
  "determinar_estacao_hemisferio_sul L data_valor =
    (case corpo_determinar_estacao L data_valor of
       Inl e \<Rightarrow> Inr None
     | Inr r \<Rightarrow> Inr r)"

text \<open>
  The four ranges as the specification words them (section 4.1), to be compared with the
  chain of the source.
\<close>

definition intervalo_spec :: "string \<Rightarrow> int \<Rightarrow> int \<Rightarrow> bool" where
  "intervalo_spec s m d =
    (if s = ''verao'' then (m = 12 \<and> d \<ge> 21) \<or> m = 1 \<or> m = 2 \<or> (m = 3 \<and> d < 20)
     else if s = ''outono'' then (m = 3 \<and> d \<ge> 20) \<or> m = 4 \<or> m = 5 \<or> (m = 6 \<and> d < 20)
     else if s = ''inverno'' then (m = 6 \<and> d \<ge> 20) \<or> m = 7 \<or> m = 8 \<or> (m = 9 \<and> d < 22)
     else if s = ''primavera'' then (m = 9 \<and> d \<ge> 22) \<or> m = 10 \<or> m = 11 \<or> (m = 12 \<and> d < 21)
     else False)"

text \<open>The days of a month in a calendar year (February with its leap day).\<close>

definition dias_no_mes :: "int \<Rightarrow> int" where
  "dias_no_mes m =
    (if m = 2 then 29
     else if m \<in> set [4, 6, 9, 11] then 30
     else 31)"

definition data_valida :: "int \<Rightarrow> int \<Rightarrow> bool" where
  "data_valida m d = (1 \<le> m \<and> m \<le> 12 \<and> 1 \<le> d \<and> d \<le> dias_no_mes m)"

text \<open>
  The date whose month and day the classifier reads (the three \<open>isinstance\<close> branches
  of the source): the timestamp itself, the timestamp pandas makes of a \<open>datetime\<close>,
  the timestamp pandas parses from a string. There is none where pandas raises or
  answers \<open>NaT\<close>, and none for a value of another type.
\<close>

definition data_lida :: "pandas \<Rightarrow> pyval \<Rightarrow> carimbo option" where
  "data_lida L data_valor =
    (case data_valor of
       Esc (Instante t) \<Rightarrow> Some t
     | Esc (DataHora t) \<Rightarrow> (case timestamp_de L t of Inl e \<Rightarrow> None | Inr d \<Rightarrow> Some d)
     | Esc (Texto s) \<Rightarrow> (case to_datetime L s of Inl e \<Rightarrow> None | Inr d \<Rightarrow> d)
     | _ \<Rightarrow> None)"

text \<open>A library whose parser knows no date at all, for evaluating the model.\<close>

definition pandas_nulo :: pandas where
  "pandas_nulo =
     \<lparr> to_datetime = (\<lambda>s. Inr None),
       timestamp_de = (\<lambda>t. Inr t),
       isna_lista = (\<lambda>xs. Inl ValueError),
       notna_lista = (\<lambda>xs. Inl ValueError) \<rparr>"

text \<open>
  The types the classifier converts (the three \<open>isinstance\<close> tests of the source), and
  the strings pandas does not turn into a date.
\<close>

fun tipo_suportado :: "pyval \<Rightarrow> bool" where
  "tipo_suportado (Esc (Instante t)) = True"
| "tipo_suportado (Esc (DataHora t)) = True"
| "tipo_suportado (Esc (Texto s)) = True"
| "tipo_suportado _ = False"

definition nao_interpretavel :: "pandas \<Rightarrow> string \<Rightarrow> bool" where
  "nao_interpretavel L s =
    (case to_datetime L s of
       Inl e \<Rightarrow> True
     | Inr None \<Rightarrow> True
     | Inr (Some d) \<Rightarrow> False)"

section \<open>Python operations on values\<close>

text \<open>
  The truth value Python gives a value in a condition, \<open>x.get(k, default)\<close>,
  \<open>k in x\<close>, \<open>len(x)\<close>, \<open>x[0]\<close> and \<open>str.strip()\<close>, with the exception each of
  them raises on a value of the wrong type.
\<close>

fun verdadeiro :: "pyval \<Rightarrow> bool" where
  "verdadeiro (Esc Nulo) = False"
| "verdadeiro (Esc (Booleano b)) = b"
| "verdadeiro (Esc (Numero r)) = (r \<noteq> 0)"
| "verdadeiro (Esc (Texto s)) = (s \<noteq> [])"
| "verdadeiro (Esc e) = True"
| "verdadeiro (PyList xs) = (xs \<noteq> [])"
| "verdadeiro (PyDict kvs) = (kvs \<noteq> [])"

definition dict_get :: "(string \<times> pyval) list \<Rightarrow> string \<Rightarrow> pyval \<Rightarrow> pyval" where
  "dict_get kvs k padrao = (case map_of kvs k of None \<Rightarrow> padrao | Some v \<Rightarrow> v)"

fun py_get :: "pyval \<Rightarrow> string \<Rightarrow> pyval \<Rightarrow> erro + pyval" where
  "py_get (PyDict kvs) k padrao = Inr (dict_get kvs k padrao)"
| "py_get _ k padrao = Inl AttributeError"

fun contem :: "string \<Rightarrow> string \<Rightarrow> bool" where
  "contem sub [] = (sub = [])"
| "contem sub (c # cs) = (sub = take (length sub) (c # cs) \<or> contem sub cs)"

fun py_in :: "string \<Rightarrow> pyval \<Rightarrow> erro + bool" where
  "py_in k (PyDict kvs) = Inr (k \<in> fst ` set kvs)"
| "py_in k (PyList xs) = Inr (Esc (Texto k) \<in> set xs)"
| "py_in k (Esc (Texto s)) = Inr (contem k s)"
| "py_in k (Esc e) = Inl TypeError"

definition espaco :: "char \<Rightarrow> bool" where
  "espaco c = (c \<in> set [CHR 0x09, CHR 0x0A, CHR 0x0B, CHR 0x0C, CHR 0x0D,
                         CHR 0x1C, CHR 0x1D, CHR 0x1E, CHR 0x1F, CHR 0x20,
                         CHR 0x85, CHR 0xA0])"

definition strip :: "string \<Rightarrow> string" where
  "strip s = rev (dropWhile espaco (rev (dropWhile espaco s)))"

section \<open>Season splitter\<close>

text \<open>
  \<open>extrair_ocorrencias_por_estacao\<close> of \<open>extrair_ocorrencias_por_estacao.py\<close>. The
  \<open>defaultdict(list)\<close> is an association list in the order the seasons first appear;
  the two counters the function prints are part of its state.
\<close>

record agrupamento =
  ocorrencias_por_estacao :: "(string \<times> pyval list) list"
  ocorrencias_sem_data :: nat
  ocorrencias_sem_estacao :: nat

definition agrupamento_vazio :: agrupamento where
  "agrupamento_vazio =
     \<lparr> ocorrencias_por_estacao = [], ocorrencias_sem_data = 0, ocorrencias_sem_estacao = 0 \<rparr>"

definition anexar :: "string \<Rightarrow> pyval \<Rightarrow> (string \<times> pyval list) list \<Rightarrow> (string \<times> pyval list) list" where
  "anexar k f d = AList.update k ((case map_of d k of None \<Rightarrow> [] | Some fs \<Rightarrow> fs) @ [f]) d"

fun primeira_coluna :: "string list \<Rightarrow> pyval \<Rightarrow> erro + string option" where
  "primeira_coluna [] props = Inr None"
| "primeira_coluna (col # cols) props =
     (case py_in col props of
        Inl e \<Rightarrow> Inl e
      | Inr True \<Rightarrow> Inr (Some col)
      | Inr False \<Rightarrow> primeira_coluna cols props)"

definition colunas_data :: "string list" where
  "colunas_data = [''data_inicio'', ''data_fim'', ''data_particao'']"

definition data_em_branco :: "pyval \<Rightarrow> bool" where
  "data_em_branco data_valor =
     (data_valor = Esc Nulo \<or> (case data_valor of Esc (Texto s) \<Rightarrow> strip s = [] | _ \<Rightarrow> False))"

definition processar_feature :: "pandas \<Rightarrow> string \<Rightarrow> pyval \<Rightarrow> agrupamento \<Rightarrow> erro + agrupamento" where
  "processar_feature L col feature st =
    (case py_get feature ''properties'' (PyDict []) of
       Inl e \<Rightarrow> Inl e
     | Inr props \<Rightarrow>
        (case py_get props col (Esc Nulo) of
           Inl e \<Rightarrow> Inl e
         | Inr data_valor \<Rightarrow>
            if data_em_branco data_valor
            then Inr (st\<lparr>ocorrencias_sem_data := ocorrencias_sem_data st + 1\<rparr>)
            else
              (case determinar_estacao_hemisferio_sul L data_valor of
                 Inl e \<Rightarrow> Inl e
               | Inr None \<Rightarrow> Inr (st\<lparr>ocorrencias_sem_estacao := ocorrencias_sem_estacao st + 1\<rparr>)
               | Inr (Some estacao) \<Rightarrow>
                   Inr (st\<lparr>ocorrencias_por_estacao :=
                              anexar estacao feature (ocorrencias_por_estacao st)\<rparr>))))"

fun processar_features :: "pandas \<Rightarrow> string \<Rightarrow> pyval list \<Rightarrow> agrupamento \<Rightarrow> erro + agrupamento" where
  "processar_features L col [] st = Inr st"
| "processar_features L col (feature # resto) st =
     (case processar_feature L col feature st of
        Inl e \<Rightarrow> Inl e
      | Inr st' \<Rightarrow> processar_features L col resto st')"

text \<open>
  \<open>features[0]\<close> and the loop over \<open>features\<close>: a list gives its elements; any other
  value that passed \<open>if not features\<close> has no first feature with a \<open>get\<close> method (a
  string gives a character, a dict has no key \<open>0\<close>, a number has no index).
\<close>

fun lista_de_features :: "pyval \<Rightarrow> erro + pyval list" where
  "lista_de_features (PyList xs) = Inr xs"
| "lista_de_features (PyDict kvs) = Inl KeyError"
| "lista_de_features (Esc (Texto s)) = Inl AttributeError"
| "lista_de_features (Esc e) = Inl TypeError"

definition extrair_ocorrencias_por_estacao :: "pandas \<Rightarrow> pyval \<Rightarrow> erro + agrupamento" where
  "extrair_ocorrencias_por_estacao L data_geojson =
    (case py_get data_geojson ''features'' (PyList []) of
       Inl e \<Rightarrow> Inl e
     | Inr features \<Rightarrow>
        if \<not> verdadeiro features then Inr agrupamento_vazio
        else
          (case lista_de_features features of
             Inl e \<Rightarrow> Inl e
           | Inr [] \<Rightarrow> Inr agrupamento_vazio
           | Inr (primeira_feature # resto) \<Rightarrow>
              (case py_get primeira_feature ''properties'' (PyDict []) of
                 Inl e \<Rightarrow> Inl e
               | Inr props \<Rightarrow>
                  (case primeira_coluna colunas_data props of
                     Inl e \<Rightarrow> Inl e
                   | Inr None \<Rightarrow> Inr agrupamento_vazio
                   | Inr (Some col) \<Rightarrow>
                       processar_features L col (primeira_feature # resto) agrupamento_vazio))))"

text \<open>
  What the properties below speak of: the features of a document, the date column the
  splitter resolves from the first feature, the date value of a feature in that column,
  the season a feature is classified to, and the partition of a season in the result.
\<close>

definition features_de :: "pyval \<Rightarrow> pyval list" where
  "features_de data_geojson =
    (case data_geojson of
       PyDict kvs \<Rightarrow> (case dict_get kvs ''features'' (PyList []) of PyList fs \<Rightarrow> fs | _ \<Rightarrow> [])
     | _ \<Rightarrow> [])"

definition coluna_resolvida :: "pyval \<Rightarrow> string option" where
  "coluna_resolvida data_geojson =
    (case features_de data_geojson of
       [] \<Rightarrow> None
     | f # fs \<Rightarrow>
        (case py_get f ''properties'' (PyDict []) of
           Inl e \<Rightarrow> None
         | Inr props \<Rightarrow>
            (case primeira_coluna colunas_data props of Inl e \<Rightarrow> None | Inr c \<Rightarrow> c)))"

definition valor_data :: "string \<Rightarrow> pyval \<Rightarrow> pyval" where
  "valor_data col feature =
    (case py_get feature ''properties'' (PyDict []) of
       Inl e \<Rightarrow> Esc Nulo
     | Inr props \<Rightarrow> (case py_get props col (Esc Nulo) of Inl e \<Rightarrow> Esc Nulo | Inr v \<Rightarrow> v))"

definition estacao_da_feature :: "pandas \<Rightarrow> pyval \<Rightarrow> pyval \<Rightarrow> string option" where
  "estacao_da_feature L data_geojson feature =
    (case coluna_resolvida data_geojson of
       None \<Rightarrow> None
     | Some col \<Rightarrow>
        if data_em_branco (valor_data col feature) then None
        else (case determinar_estacao_hemisferio_sul L (valor_data col feature) of
                Inl e \<Rightarrow> None
              | Inr r \<Rightarrow> r))"

definition particao :: "agrupamento \<Rightarrow> string \<Rightarrow> pyval list" where
  "particao g s = (case map_of (ocorrencias_por_estacao g) s of None \<Rightarrow> [] | Some fs \<Rightarrow> fs)"

definition pertence :: "pandas \<Rightarrow> string \<Rightarrow> pyval \<Rightarrow> string option" where
  "pertence L col f =
     (if data_em_branco (valor_data col f) then None
      else (case determinar_estacao_hemisferio_sul L (valor_data col f) of
              Inl e \<Rightarrow> None | Inr r \<Rightarrow> r))"

text \<open>
  The date value a feature carries by itself: the value of the first of the three date
  columns its own properties have, \<open>None\<close> when they have none. The splitter does not
  read it: it reads every feature in the column resolved from the first one.
\<close>

definition data_propria :: "pyval \<Rightarrow> pyval" where
  "data_propria feature =
    (case py_get feature ''properties'' (PyDict []) of
       Inl e \<Rightarrow> Esc Nulo
     | Inr props \<Rightarrow>
        (case primeira_coluna colunas_data props of
           Inl e \<Rightarrow> Esc Nulo
         | Inr None \<Rightarrow> Esc Nulo
         | Inr (Some col) \<Rightarrow> valor_data col feature))"

section \<open>GeoJSON fixer\<close>

text \<open>
  \<open>corrigir_geojson\<close> of \<open>fix_all_geojson.py\<close>, from the parsed document to the
  document it writes. Assigning to a key of a \<open>dict\<close> that holds the key keeps the
  key's place; the properties of a feature are changed in place, which the model writes
  back into the feature.
\<close>

record estatisticas =
  coordenadas_vazias :: nat
  latitude_vazia :: nat
  longitude_vazia :: nat
  total_features :: nat

fun py_len :: "pyval \<Rightarrow> erro + nat" where
  "py_len (PyList xs) = Inr (length xs)"
| "py_len (PyDict kvs) = Inr (length kvs)"
| "py_len (Esc (Texto s)) = Inr (length s)"
| "py_len (Esc e) = Inl TypeError"

definition par_vazio :: pyval where
  "par_vazio = PyList [Esc (Texto ''''), Esc (Texto '''')]"

definition geometria_vazia :: "(string \<times> pyval) list \<Rightarrow> bool" where
  "geometria_vazia feature =
     (verdadeiro (dict_get feature ''geometry'' (Esc Nulo))
      \<and> (case dict_get feature ''geometry'' (Esc Nulo) of
            PyDict geometry \<Rightarrow> dict_get geometry ''coordinates'' (Esc Nulo) = par_vazio
          | _ \<Rightarrow> False))"

definition corrigir_campo ::
  "string \<Rightarrow> (estatisticas \<Rightarrow> estatisticas) \<Rightarrow>
   (string \<times> pyval) list \<times> estatisticas \<times> bool \<Rightarrow> (string \<times> pyval) list \<times> estatisticas \<times> bool" where
  "corrigir_campo campo contar = (\<lambda>(props, stats, corrigido).
     if dict_get props campo (Esc Nulo) = Esc (Texto '''')
     then (AList.update campo (Esc Nulo) props, contar stats, True)
     else (props, stats, corrigido))"

definition corrigir_propriedades ::
  "(string \<times> pyval) list \<times> estatisticas \<times> bool \<Rightarrow> (string \<times> pyval) list \<times> estatisticas \<times> bool" where
  "corrigir_propriedades x =
     corrigir_campo ''longitude'' (\<lambda>s. s\<lparr>longitude_vazia := longitude_vazia s + 1\<rparr>)
       (corrigir_campo ''latitude'' (\<lambda>s. s\<lparr>latitude_vazia := latitude_vazia s + 1\<rparr>) x)"

definition corrigir_feature :: "pyval \<Rightarrow> estatisticas \<Rightarrow> erro + pyval \<times> estatisticas \<times> bool" where
  "corrigir_feature feature stats =
    (case feature of
       PyDict kvs \<Rightarrow>
         (let (kvs1, stats1, corrigido1) =
                (if geometria_vazia kvs
                 then (AList.update ''geometry'' (Esc Nulo) kvs,
                       stats\<lparr>coordenadas_vazias := coordenadas_vazias stats + 1\<rparr>, True)
                 else (kvs, stats, False))
          in if verdadeiro (dict_get kvs1 ''properties'' (Esc Nulo))
             then (case dict_get kvs1 ''properties'' (Esc Nulo) of
                     PyDict props \<Rightarrow>
                       (case corrigir_propriedades (props, stats1, corrigido1) of
                          (props2, stats2, corrigido2) \<Rightarrow>
                            Inr (PyDict (AList.update ''properties'' (PyDict props2) kvs1),
                                 stats2, corrigido2))
                   | _ \<Rightarrow> Inl AttributeError)
             else Inr (PyDict kvs1, stats1, corrigido1))
     | _ \<Rightarrow> Inl AttributeError)"

fun corrigir_features :: "pyval list \<Rightarrow> estatisticas \<Rightarrow> nat \<Rightarrow> erro + pyval list \<times> estatisticas \<times> nat" where
  "corrigir_features [] stats n = Inr ([], stats, n)"
| "corrigir_features (feature # resto) stats n =
     (case corrigir_feature feature stats of
        Inl e \<Rightarrow> Inl e
      | Inr (feature', stats', corrigido) \<Rightarrow>
          (case corrigir_features resto stats' (if corrigido then n + 1 else n) of
             Inl e \<Rightarrow> Inl e
           | Inr (resto', stats'', n') \<Rightarrow> Inr (feature' # resto', stats'', n')))"

definition estatisticas_iniciais :: "nat \<Rightarrow> estatisticas" where
  "estatisticas_iniciais n =
     \<lparr> coordenadas_vazias = 0, latitude_vazia = 0, longitude_vazia = 0, total_features = n \<rparr>"

text \<open>
  The result is the document written to the destination, the statistics returned, and
  the number of corrected features the function prints. A \<open>features\<close> member that is
  not a list has no length (a number, \<open>null\<close>), or has elements without a \<open>get\<close>
  method (the characters of a string, the keys of an object).
\<close>

definition corrigir_geojson :: "pyval \<Rightarrow> erro + pyval \<times> estatisticas \<times> nat" where
  "corrigir_geojson data =
    (case py_get data ''features'' (PyList []) of
       Inl e \<Rightarrow> Inl e
     | Inr features \<Rightarrow>
        (case py_len features of
           Inl e \<Rightarrow> Inl e
         | Inr n_total \<Rightarrow>
            (case features of
               PyList fs \<Rightarrow>
                 (case corrigir_features fs (estatisticas_iniciais n_total) 0 of
                    Inl e \<Rightarrow> Inl e
                  | Inr (fs', stats, n) \<Rightarrow>
                      Inr ((case data of
                              PyDict kvs \<Rightarrow>
                                (if ''features'' \<in> fst ` set kvs
                                 then PyDict (AList.update ''features'' (PyList fs') kvs)
                                 else data)
                            | _ \<Rightarrow> data), stats, n))
             | _ \<Rightarrow>
                 if n_total = 0 then Inr (data, estatisticas_iniciais n_total, 0)
                 else Inl AttributeError)))"

text \<open>
  The vocabulary of the frame property: two objects with the same keys in the same order
  that agree outside a set of keys, the condition under which the geometry of a feature
  is emptied, and the value of a coordinate property after the correction.
\<close>

definition iguais_fora :: "string set \<Rightarrow> (string \<times> pyval) list \<Rightarrow> (string \<times> pyval) list \<Rightarrow> bool" where
  "iguais_fora K kvs kvs' =
     (map fst kvs' = map fst kvs \<and> (\<forall>k. k \<notin> K \<longrightarrow> map_of kvs' k = map_of kvs k))"

definition coordenadas_sao_par_vazio :: "(string \<times> pyval) list \<Rightarrow> bool" where
  "coordenadas_sao_par_vazio feature =
     (\<exists>geometry. map_of feature ''geometry'' = Some (PyDict geometry)
        \<and> map_of geometry ''coordinates'' = Some par_vazio)"

definition campo_corrigido :: "pyval option \<Rightarrow> pyval option" where
  "campo_corrigido v = (if v = Some (Esc (Texto '''')) then Some (Esc Nulo) else v)"

definition propriedades_corrigidas :: "pyval option \<Rightarrow> pyval option \<Rightarrow> bool" where
  "propriedades_corrigidas p p' =
     (case p of
        Some (PyDict props) \<Rightarrow>
          (\<exists>props'. p' = Some (PyDict props')
             \<and> iguais_fora {''latitude'', ''longitude''} props props'
             \<and> map_of props' ''latitude'' = campo_corrigido (map_of props ''latitude'')
             \<and> map_of props' ''longitude'' = campo_corrigido (map_of props ''longitude''))
      | _ \<Rightarrow> p' = p)"

definition feature_corrigida :: "pyval \<Rightarrow> pyval \<Rightarrow> bool" where
  "feature_corrigida f f' =
     (case (f, f') of
        (PyDict kvs, PyDict kvs') \<Rightarrow>
          iguais_fora {''geometry'', ''properties''} kvs kvs'
          \<and> map_of kvs' ''geometry''
              = (if coordenadas_sao_par_vazio kvs then Some (Esc Nulo) else map_of kvs ''geometry'')
          \<and> propriedades_corrigidas (map_of kvs ''properties'') (map_of kvs' ''properties'')
      | _ \<Rightarrow> False)"

section \<open>Tables\<close>

text \<open>
  A table (\<open>GeoDataFrame\<close>) is its column names and its rows. A row gives a column the
  value of a cell: a scalar, or the list or object a GeoJSON property may hold; a column
  the row does not mention holds \<open>NaN\<close>, as in pandas.
\<close>

type_synonym linha = "(string \<times> pyval) list"

record tabela =
  colunas :: "string list"
  linhas :: "linha list"

definition celula :: "linha \<Rightarrow> string \<Rightarrow> pyval" where
  "celula row col = (case map_of row col of None \<Rightarrow> Esc NaN | Some v \<Rightarrow> v)"

text \<open>
  A value used as the key of a dict or of a \<open>groupby\<close>: a list and an object are not
  hashable. Keys are compared as written (Python's identification of \<open>True\<close> with
  \<open>1\<close> is not modelled).
\<close>

fun chave :: "pyval \<Rightarrow> erro + escalar" where
  "chave (Esc e) = Inr e"
| "chave (PyList xs) = Inl TypeError"
| "chave (PyDict kvs) = Inl TypeError"

section \<open>Occurrence reader\<close>

text \<open>
  \<open>ler_ocorrencias\<close> of \<open>contar_ocorrencias_por_bairro.py\<close>: the loop that keeps the
  features with a usable geometry and counts the others, then the call of
  \<open>GeoDataFrame.from_features\<close> on the features kept, inside the same \<open>try\<close>, whose
  handler prints the exception and raises it again. What is not the repository's is a
  parameter: whether Python's \<open>float\<close> accepts a string (\<open>float_de_str\<close>), whether
  it accepts a number (\<open>float_de_num\<close>: an \<open>int\<close> beyond the range of a float
  raises \<open>OverflowError\<close>), and \<open>from_features\<close> of geopandas.
\<close>

record leitura =
  float_de_str :: "string \<Rightarrow> bool"
  float_de_num :: "real \<Rightarrow> bool"
  from_features :: "pyval list \<Rightarrow> erro + tabela"

fun py_float :: "leitura \<Rightarrow> pyval \<Rightarrow> erro + unit" where
  "py_float G (Esc (Numero r)) = (if float_de_num G r then Inr () else Inl OverflowError)"
| "py_float G (Esc (Booleano b)) = Inr ()"
| "py_float G (Esc NaN) = Inr ()"
| "py_float G (Esc (Texto s)) = (if float_de_str G s then Inr () else Inl ValueError)"
| "py_float G _ = Inl TypeError"

text \<open>\<open>x[i]\<close>: an element of a list, a character of a string, no such key in an object.\<close>

fun py_item :: "pyval \<Rightarrow> nat \<Rightarrow> erro + pyval" where
  "py_item (PyList xs) i = (if i < length xs then Inr (xs ! i) else Inl IndexError)"
| "py_item (Esc (Texto s)) i = (if i < length s then Inr (Esc (Texto [s ! i])) else Inl IndexError)"
| "py_item (PyDict kvs) i = Inl KeyError"
| "py_item (Esc e) i = Inl TypeError"

definition coordenadas_em_branco :: "pyval \<Rightarrow> bool" where
  "coordenadas_em_branco coords =
     (case coords of
        PyList cs \<Rightarrow>
          length cs \<ge> 2
          \<and> (coords = PyList [Esc (Texto ''''), Esc (Texto '''')]
               \<or> (\<exists>c \<in> set (take 2 cs). c = Esc (Texto '''')))
      | _ \<Rightarrow> False)"

text \<open>
  The \<open>try\<close> block: \<open>Inr True\<close> when it passes, \<open>Inr False\<close> when it raises
  \<open>ValueError\<close> or \<open>TypeError\<close>, which the source catches, and \<open>Inl\<close> for any
  other exception (an \<open>OverflowError\<close> of \<open>float\<close>, a \<open>KeyError\<close> of
  \<open>coords[0]\<close> on an object), which leaves the loop and the function.
\<close>

definition tentar_converter :: "leitura \<Rightarrow> pyval \<Rightarrow> erro + unit" where
  "tentar_converter G coords =
     (case py_len coords of
        Inl e \<Rightarrow> Inl e
      | Inr n \<Rightarrow>
         if n \<ge> 2 then
           (case py_item coords 0 of
              Inl e \<Rightarrow> Inl e
            | Inr c0 \<Rightarrow>
               (case py_float G c0 of
                  Inl e \<Rightarrow> Inl e
                | Inr u \<Rightarrow>
                   (case py_item coords 1 of
                      Inl e \<Rightarrow> Inl e
                    | Inr c1 \<Rightarrow> py_float G c1)))
         else Inr ())"

definition coordenadas_convertem :: "leitura \<Rightarrow> pyval \<Rightarrow> erro + bool" where
  "coordenadas_convertem G coords =
     (case tentar_converter G coords of
        Inr u \<Rightarrow> Inr True
      | Inl ValueError \<Rightarrow> Inr False
      | Inl TypeError \<Rightarrow> Inr False
      | Inl e \<Rightarrow> Inl e)"

definition feature_valida :: "leitura \<Rightarrow> pyval \<Rightarrow> erro + bool" where
  "feature_valida G feature =
     (case py_get feature ''geometry'' (Esc Nulo) of
        Inl e \<Rightarrow> Inl e
      | Inr geometry \<Rightarrow>
         if geometry = Esc Nulo then Inr False
         else
           (case geometry of
              PyDict g \<Rightarrow>
                (if ''coordinates'' \<in> fst ` set g
                 then (let coords = dict_get g ''coordinates'' (Esc Nulo)
                       in if coordenadas_em_branco coords then Inr False
                          else coordenadas_convertem G coords)
                 else Inr True)
            | _ \<Rightarrow> Inr True))"

fun filtrar_features :: "leitura \<Rightarrow> pyval list \<Rightarrow> erro + pyval list \<times> nat" where
  "filtrar_features G [] = Inr ([], 0)"
| "filtrar_features G (feature # resto) =
     (case feature_valida G feature of
        Inl e \<Rightarrow> Inl e
      | Inr ok \<Rightarrow>
         (case filtrar_features G resto of
            Inl e \<Rightarrow> Inl e
          | Inr (features_validas, features_invalidas) \<Rightarrow>
              if ok then Inr (feature # features_validas, features_invalidas)
              else Inr (features_validas, features_invalidas + 1)))"

text \<open>
  Iterating over \<open>data.get('features', [])\<close>: the elements of a list, the characters
  of a string, the keys of an object; anything else is not iterable.
\<close>

fun py_iter :: "pyval \<Rightarrow> erro + pyval list" where
  "py_iter (PyList xs) = Inr xs"
| "py_iter (PyDict kvs) = Inr (map (\<lambda>kv. Esc (Texto (fst kv))) kvs)"
| "py_iter (Esc (Texto s)) = Inr (map (\<lambda>c. Esc (Texto [c])) s)"
| "py_iter (Esc e) = Inl TypeError"

definition ler_ocorrencias :: "leitura \<Rightarrow> pyval \<Rightarrow> erro + tabela \<times> nat" where
  "ler_ocorrencias G data =
     (case py_get data ''features'' (PyList []) of
        Inl e \<Rightarrow> Inl e
      | Inr features \<Rightarrow>
         (case py_iter features of
            Inl e \<Rightarrow> Inl e
          | Inr fs \<Rightarrow>
             (case filtrar_features G fs of
                Inl e \<Rightarrow> Inl e
              | Inr (features_validas, features_invalidas) \<Rightarrow>
                 (case from_features G features_validas of
                    Inl e \<Rightarrow> Inl e
                  | Inr gdf \<Rightarrow> Inr (gdf, features_invalidas)))))"

text \<open>
  The reading of the specification (section 4.2): the geometry is structurally present
  and its first two coordinate values are present and numerically parseable.
\<close>

definition numerico :: "leitura \<Rightarrow> pyval \<Rightarrow> bool" where
  "numerico G c = (py_float G c = Inr ())"

definition geometria_utilizavel_spec :: "leitura \<Rightarrow> pyval \<Rightarrow> bool" where
  "geometria_utilizavel_spec G feature =
     (case feature of
        PyDict kvs \<Rightarrow>
          (case map_of kvs ''geometry'' of
             Some (PyDict g) \<Rightarrow>
               (case map_of g ''coordinates'' of
                  Some (PyList (c0 # c1 # cs)) \<Rightarrow> numerico G c0 \<and> numerico G c1
                | _ \<Rightarrow> False)
           | _ \<Rightarrow> False)
      | _ \<Rightarrow> False)"

section \<open>Aggregator\<close>

text \<open>
  \<open>contar_ocorrencias_por_bairro\<close> of \<open>contar_ocorrencias_por_bairro.py\<close>. The four
  count tables are maps; \<open>defaultdict\<close> creates an entry the first time a key is
  indexed. The two warnings the function prints are part of its result.
\<close>

datatype aviso = SemColunaTipo | SemColunaData

record contagens =
  contagem_total :: "escalar \<rightharpoonup> nat"
  contagem_por_tipo :: "escalar \<rightharpoonup> (escalar \<rightharpoonup> nat)"
  contagem_por_estacao :: "escalar \<rightharpoonup> (string \<rightharpoonup> nat)"
  contagem_por_tipo_estacao :: "escalar \<rightharpoonup> (escalar \<rightharpoonup> (string \<rightharpoonup> nat))"
  avisos :: "aviso list"

definition incrementar :: "'k \<Rightarrow> ('k \<rightharpoonup> nat) \<Rightarrow> ('k \<rightharpoonup> nat)" where
  "incrementar k d = d(k \<mapsto> (case d k of None \<Rightarrow> 0 | Some n \<Rightarrow> n) + 1)"

definition em_chave :: "'k \<Rightarrow> (('a \<rightharpoonup> 'b) \<Rightarrow> ('a \<rightharpoonup> 'b)) \<Rightarrow> ('k \<rightharpoonup> ('a \<rightharpoonup> 'b)) \<Rightarrow> ('k \<rightharpoonup> ('a \<rightharpoonup> 'b))" where
  "em_chave k f d = d(k \<mapsto> f (case d k of None \<Rightarrow> Map.empty | Some m \<Rightarrow> m))"

text \<open>
  \<open>gdf.groupby('bairro').size().to_dict()\<close>: the number of rows of each non-null key.
  Grouping hashes the values of the column, so a cell that holds a list or an object
  raises \<open>TypeError\<close>.
\<close>

fun agrupar_por_bairro :: "linha list \<Rightarrow> (escalar \<rightharpoonup> nat) \<Rightarrow> erro + (escalar \<rightharpoonup> nat)" where
  "agrupar_por_bairro [] d = Inr d"
| "agrupar_por_bairro (row # resto) d =
     (case chave (celula row ''bairro'') of
        Inl e \<Rightarrow> Inl e
      | Inr bairro \<Rightarrow>
          agrupar_por_bairro resto
            (if isna_escalar bairro then d else incrementar bairro d))"

definition estacao_verdadeira :: "string option \<Rightarrow> bool" where
  "estacao_verdadeira estacao = (case estacao of None \<Rightarrow> False | Some s \<Rightarrow> s \<noteq> [])"

text \<open>
  The block \<open>if tipo_disponivel\<close> of the loop. \<open>contagem_por_tipo[bairro][tipo] += 1\<close>
  hashes \<open>bairro\<close>, then \<open>tipo\<close>.
\<close>

definition contar_tipo :: "pandas \<Rightarrow> bool \<Rightarrow> linha \<Rightarrow> pyval \<Rightarrow> string option \<Rightarrow> contagens \<Rightarrow> erro + contagens" where
  "contar_tipo L tipo_disponivel row bairro estacao c =
     (if tipo_disponivel then
        (let tipo = celula row ''tipo'' in
         case pd_notna L tipo of
           Inl e \<Rightarrow> Inl e
         | Inr False \<Rightarrow> Inr c
         | Inr True \<Rightarrow>
            (case chave bairro of
               Inl e \<Rightarrow> Inl e
             | Inr b \<Rightarrow>
                (case chave tipo of
                   Inl e \<Rightarrow> Inl e
                 | Inr t \<Rightarrow>
                    (let c1 = c\<lparr>contagem_por_tipo := em_chave b (incrementar t) (contagem_por_tipo c)\<rparr>
                     in if estacao_verdadeira estacao
                        then Inr (c1\<lparr>contagem_por_tipo_estacao :=
                                       em_chave b (em_chave t (incrementar (the estacao)))
                                         (contagem_por_tipo_estacao c1)\<rparr>)
                        else Inr c1))))
      else Inr c)"

definition contar_linha :: "pandas \<Rightarrow> bool \<Rightarrow> string option \<Rightarrow> linha \<Rightarrow> contagens \<Rightarrow> erro + contagens" where
  "contar_linha L tipo_disponivel coluna_data row c =
     (let bairro = celula row ''bairro'' in
      case pd_isna L bairro of
        Inl e \<Rightarrow> Inl e
      | Inr True \<Rightarrow> Inr c
      | Inr False \<Rightarrow>
        (case (case coluna_data of
                 None \<Rightarrow> Inr None
               | Some col \<Rightarrow> determinar_estacao_hemisferio_sul L (celula row col)) of
           Inl e \<Rightarrow> Inl e
         | Inr estacao \<Rightarrow>
            (case contar_tipo L tipo_disponivel row bairro estacao c of
               Inl e \<Rightarrow> Inl e
             | Inr c1 \<Rightarrow>
                if estacao_verdadeira estacao
                then (case chave bairro of
                        Inl e \<Rightarrow> Inl e
                      | Inr b \<Rightarrow>
                          Inr (c1\<lparr>contagem_por_estacao :=
                                    em_chave b (incrementar (the estacao)) (contagem_por_estacao c1)\<rparr>))
                else Inr c1)))"

fun contar_linhas :: "pandas \<Rightarrow> bool \<Rightarrow> string option \<Rightarrow> linha list \<Rightarrow> contagens \<Rightarrow> erro + contagens" where
  "contar_linhas L tipo_disponivel coluna_data [] c = Inr c"
| "contar_linhas L tipo_disponivel coluna_data (row # resto) c =
     (case contar_linha L tipo_disponivel coluna_data row c of
        Inl e \<Rightarrow> Inl e
      | Inr c' \<Rightarrow> contar_linhas L tipo_disponivel coluna_data resto c')"

definition contar_ocorrencias_por_bairro :: "pandas \<Rightarrow> tabela \<Rightarrow> erro + contagens" where
  "contar_ocorrencias_por_bairro L gdf_ocorrencias =
     (if ''bairro'' \<notin> set (colunas gdf_ocorrencias) then Inl ValueError
      else
        (let tipo_disponivel = (''tipo'' \<in> set (colunas gdf_ocorrencias));
             coluna_data = find (\<lambda>col. col \<in> set (colunas gdf_ocorrencias)) colunas_data;
             estacao_disponivel = (coluna_data \<noteq> None)
         in case agrupar_por_bairro (linhas gdf_ocorrencias) Map.empty of
              Inl e \<Rightarrow> Inl e
            | Inr totais \<Rightarrow>
               (let c = \<lparr> contagem_total = totais,
                          contagem_por_tipo = Map.empty,
                          contagem_por_estacao = Map.empty,
                          contagem_por_tipo_estacao = Map.empty,
                          avisos = (if tipo_disponivel then [] else [SemColunaTipo])
                                   @ (if estacao_disponivel then [] else [SemColunaData]) \<rparr>
                in if tipo_disponivel \<or> estacao_disponivel
                   then contar_linhas L tipo_disponivel coluna_data (linhas gdf_ocorrencias) c
                   else Inr c)))"

text \<open>Reading a count table: a key that is absent counts zero.\<close>

definition valor_em :: "('k \<rightharpoonup> nat) \<Rightarrow> 'k \<Rightarrow> nat" where
  "valor_em m k = (case m k of None \<Rightarrow> 0 | Some n \<Rightarrow> n)"

definition total_de :: "contagens \<Rightarrow> escalar \<Rightarrow> nat" where
  "total_de c bairro = (case contagem_total c bairro of None \<Rightarrow> 0 | Some n \<Rightarrow> n)"

definition por_tipo_de :: "contagens \<Rightarrow> escalar \<Rightarrow> escalar \<Rightarrow> nat" where
  "por_tipo_de c bairro tipo =
     (case contagem_por_tipo c bairro of None \<Rightarrow> 0 | Some m \<Rightarrow> valor_em m tipo)"

definition por_estacao_de :: "contagens \<Rightarrow> escalar \<Rightarrow> string \<Rightarrow> nat" where
  "por_estacao_de c bairro estacao =
     (case contagem_por_estacao c bairro of None \<Rightarrow> 0 | Some m \<Rightarrow> valor_em m estacao)"

definition por_tipo_estacao_de :: "contagens \<Rightarrow> escalar \<Rightarrow> escalar \<Rightarrow> string \<Rightarrow> nat" where
  "por_tipo_estacao_de c bairro tipo estacao =
     (case contagem_por_tipo_estacao c bairro of
        None \<Rightarrow> 0
      | Some m \<Rightarrow> (case m tipo of None \<Rightarrow> 0 | Some k \<Rightarrow> valor_em k estacao))"

text \<open>
  What a row says: its neighbourhood and its type, when the cell is a scalar that is not
  null, and the season the classifier gives to its cell of a date column.
\<close>

definition bairro_da_linha :: "linha \<Rightarrow> escalar option" where
  "bairro_da_linha row =
     (case celula row ''bairro'' of
        Esc b \<Rightarrow> if isna_escalar b then None else Some b
      | _ \<Rightarrow> None)"

definition tipo_da_linha :: "linha \<Rightarrow> escalar option" where
  "tipo_da_linha row =
     (case celula row ''tipo'' of
        Esc t \<Rightarrow> if isna_escalar t then None else Some t
      | _ \<Rightarrow> None)"

definition estacao_da_linha :: "pandas \<Rightarrow> string \<Rightarrow> linha \<Rightarrow> string option" where
  "estacao_da_linha L col row =
     (case determinar_estacao_hemisferio_sul L (celula row col) of
        Inl e \<Rightarrow> None
      | Inr r \<Rightarrow> r)"

text \<open>
  The number of rows of a neighbourhood, of a neighbourhood and a type, of a
  neighbourhood and a season, and of the three.
\<close>

definition linhas_do_bairro :: "escalar \<Rightarrow> linha list \<Rightarrow> nat" where
  "linhas_do_bairro bairro rows =
     length (filter (\<lambda>row. bairro_da_linha row = Some bairro) rows)"

definition linhas_do_tipo :: "escalar \<Rightarrow> escalar \<Rightarrow> linha list \<Rightarrow> nat" where
  "linhas_do_tipo bairro tipo rows =
     length (filter (\<lambda>row. bairro_da_linha row = Some bairro \<and> tipo_da_linha row = Some tipo) rows)"

definition linhas_da_estacao :: "pandas \<Rightarrow> string \<Rightarrow> escalar \<Rightarrow> string \<Rightarrow> linha list \<Rightarrow> nat" where
  "linhas_da_estacao L col bairro estacao rows =
     length (filter (\<lambda>row. bairro_da_linha row = Some bairro
                          \<and> estacao_da_linha L col row = Some estacao) rows)"

definition linhas_do_tipo_estacao ::
  "pandas \<Rightarrow> string \<Rightarrow> escalar \<Rightarrow> escalar \<Rightarrow> string \<Rightarrow> linha list \<Rightarrow> nat" where
  "linhas_do_tipo_estacao L col bairro tipo estacao rows =
     length (filter (\<lambda>row. bairro_da_linha row = Some bairro
                          \<and> tipo_da_linha row = Some tipo
                          \<and> estacao_da_linha L col row = Some estacao) rows)"

text \<open>
  The season tables whose keys are season labels, and the tables whose cells of the two
  key columns are scalars.
\<close>

definition rotulos_validos :: "contagens \<Rightarrow> bool" where
  "rotulos_validos c = (\<forall>n m. contagem_por_estacao c n = Some m \<longrightarrow> dom m \<subseteq> set estacoes)"

fun escalar_em :: "pyval \<Rightarrow> bool" where
  "escalar_em (Esc e) = True"
| "escalar_em (PyList xs) = False"
| "escalar_em (PyDict kvs) = False"

definition celulas_escalares :: "tabela \<Rightarrow> bool" where
  "celulas_escalares gdf =
     list_all (\<lambda>row. escalar_em (celula row ''bairro'') \<and> escalar_em (celula row ''tipo''))
       (linhas gdf)"

text \<open>One row added to the tables by type and by season, for the keys the row gives.\<close>

definition acrescentar :: "escalar \<Rightarrow> escalar option \<Rightarrow> string option \<Rightarrow> contagens \<Rightarrow> contagens" where
  "acrescentar b tipo estacao c =
     (let c1 = (case tipo of
                  None \<Rightarrow> c
                | Some t \<Rightarrow>
                   (let c0 = c\<lparr>contagem_por_tipo := em_chave b (incrementar t) (contagem_por_tipo c)\<rparr>
                    in case estacao of
                         None \<Rightarrow> c0
                       | Some s \<Rightarrow>
                           c0\<lparr>contagem_por_tipo_estacao :=
                                em_chave b (em_chave t (incrementar s)) (contagem_por_tipo_estacao c0)\<rparr>))
      in case estacao of
           None \<Rightarrow> c1
         | Some s \<Rightarrow>
             c1\<lparr>contagem_por_estacao := em_chave b (incrementar s) (contagem_por_estacao c1)\<rparr>)"

text \<open>What the loop does with one row, when it does not raise.\<close>

definition contribuicao :: "pandas \<Rightarrow> bool \<Rightarrow> string option \<Rightarrow> linha \<Rightarrow> contagens \<Rightarrow> contagens" where
  "contribuicao L tipo_disponivel coluna_data row c =
     (case bairro_da_linha row of
        None \<Rightarrow> c
      | Some b \<Rightarrow>
          acrescentar b
            (if tipo_disponivel then tipo_da_linha row else None)
            (case coluna_data of None \<Rightarrow> None | Some col \<Rightarrow> estacao_da_linha L col row)
            c)"

text \<open>The tables before the loop over the rows, given the totals of the grouping.\<close>

definition contagens_iniciais :: "tabela \<Rightarrow> (escalar \<rightharpoonup> nat) \<Rightarrow> contagens" where
  "contagens_iniciais gdf totais =
     \<lparr> contagem_total = totais,
       contagem_por_tipo = Map.empty,
       contagem_por_estacao = Map.empty,
       contagem_por_tipo_estacao = Map.empty,
       avisos = (if ''tipo'' \<in> set (colunas gdf) then [] else [SemColunaTipo])
                @ (if find (\<lambda>col. col \<in> set (colunas gdf)) colunas_data \<noteq> None then []
                   else [SemColunaData]) \<rparr>"

section \<open>Normalisation of the count tables\<close>

text \<open>
  The first step of \<open>adicionar_contagens_ao_shapefile\<close> in
  \<open>contar_ocorrencias_por_bairro.py\<close> (\<open>Normalizar nomes dos bairros\<close>): the keys of
  the count tables are turned into strings and trimmed by dict comprehensions. The count
  tables arrive as Python dicts, here association lists in insertion order. The builtins
  \<open>str\<close>, \<open>str.isalnum\<close> and \<open>str.lower\<close> are parameters; \<open>str\<close> of a string is
  the string.
\<close>

record python =
  py_str :: "escalar \<Rightarrow> string"
  isalnum :: "char \<Rightarrow> bool"
  lower :: "string \<Rightarrow> string"

definition str_de :: "python \<Rightarrow> escalar \<Rightarrow> string" where
  "str_de P e = (case e of Texto s \<Rightarrow> s | _ \<Rightarrow> py_str P e)"

definition normalizar :: "python \<Rightarrow> escalar \<Rightarrow> string" where
  "normalizar P e = strip (str_de P e)"

text \<open>
  A dict comprehension \<open>{fk(k): fv(v) for k, v in d.items()}\<close>: a key that comes again
  keeps its place and takes the later value.
\<close>

definition compreensao :: "('k \<Rightarrow> string) \<Rightarrow> ('v \<Rightarrow> 'w) \<Rightarrow> ('k \<times> 'v) list \<Rightarrow> (string \<times> 'w) list" where
  "compreensao fk fv itens = foldl (\<lambda>d kv. AList.update (fk (fst kv)) (fv (snd kv)) d) [] itens"

definition contagem_total_normalizada :: "python \<Rightarrow> (escalar \<times> nat) list \<Rightarrow> (string \<times> nat) list" where
  "contagem_total_normalizada P contagem = compreensao (normalizar P) (\<lambda>v. v) contagem"

definition normalizar_estacoes :: "(string \<times> nat) list \<Rightarrow> (string \<times> nat) list" where
  "normalizar_estacoes estacoes_dict = compreensao strip (\<lambda>v. v) estacoes_dict"

definition contagem_por_estacao_normalizada ::
  "python \<Rightarrow> (escalar \<times> (string \<times> nat) list) list \<Rightarrow> (string \<times> (string \<times> nat) list) list" where
  "contagem_por_estacao_normalizada P contagem =
     (if contagem = [] then [] else compreensao (normalizar P) normalizar_estacoes contagem)"

definition obter :: "('k \<times> nat) list \<Rightarrow> 'k \<Rightarrow> nat" where
  "obter d k = (case map_of d k of None \<Rightarrow> 0 | Some n \<Rightarrow> n)"

definition obter_dict :: "('k \<times> ('a \<times> 'b) list) list \<Rightarrow> 'k \<Rightarrow> ('a \<times> 'b) list" where
  "obter_dict d k = (case map_of d k of None \<Rightarrow> [] | Some m \<Rightarrow> m)"

section \<open>The scenario of the specification\<close>

text \<open>
  The three occurrences of the end-to-end scenario (section 8 of the specification), as
  GeoJSON features, and a pandas that parses the two dates of the scenario and answers
  \<open>NaT\<close> for every other string.
\<close>

definition pandas_exemplo :: pandas where
  "pandas_exemplo =
     \<lparr> to_datetime = (\<lambda>s.
          if s = ''2024-01-15'' then Inr (Some \<lparr>ano = 2024, mes = 1, dia = 15\<rparr>)
          else if s = ''2024-07-10'' then Inr (Some \<lparr>ano = 2024, mes = 7, dia = 10\<rparr>)
          else Inr None),
       timestamp_de = (\<lambda>t. Inr t),
       isna_lista = (\<lambda>xs. Inl ValueError),
       notna_lista = (\<lambda>xs. Inl ValueError) \<rparr>"

definition ponto :: "real \<Rightarrow> real \<Rightarrow> pyval" where
  "ponto x y = PyDict [(''type'', Esc (Texto ''Point'')),
                       (''coordinates'', PyList [Esc (Numero x), Esc (Numero y)])]"

definition ocorrencia :: "pyval \<Rightarrow> string \<Rightarrow> string \<Rightarrow> string \<Rightarrow> pyval" where
  "ocorrencia geometria bairro tipo data =
     PyDict [(''type'', Esc (Texto ''Feature'')),
             (''geometry'', geometria),
             (''properties'', PyDict [(''bairro'', Esc (Texto bairro)),
                                      (''tipo'', Esc (Texto tipo)),
                                      (''data_inicio'', Esc (Texto data))])]"

definition registro1 :: pyval where
  "registro1 = ocorrencia (ponto (-43.18) (-22.90)) ''Centro'' ''Alagamento'' ''2024-01-15''"

definition registro2 :: pyval where
  "registro2 = ocorrencia (ponto (-43.19) (-22.91)) ''Centro '' ''Alagamento'' ''2024-07-10''"

definition bolsao :: string where
  "bolsao = ''Bols'' @ [CHR 0xE3] @ ''o''"

definition registro3 :: pyval where
  "registro3 = ocorrencia (ponto (-43.25) (-22.85)) ''Norte'' bolsao ''''"

definition documento_exemplo :: pyval where
  "documento_exemplo =
     PyDict [(''type'', Esc (Texto ''FeatureCollection'')),
             (''features'', PyList [registro1, registro2, registro3])]"

definition agrupamento_exemplo :: agrupamento where
  "agrupamento_exemplo =
     \<lparr> ocorrencias_por_estacao = [(''verao'', [registro1]), (''inverno'', [registro2])],
       ocorrencias_sem_data = 1, ocorrencias_sem_estacao = 0 \<rparr>"

text \<open>
  A raw document for the fixer: a feature with empty coordinates and an empty latitude,
  followed by the first occurrence of the scenario, and the document the fixer writes.
\<close>

definition feature_bruta :: pyval where
  "feature_bruta =
     PyDict [(''type'', Esc (Texto ''Feature'')),
             (''geometry'', PyDict [(''type'', Esc (Texto ''Point'')), (''coordinates'', par_vazio)]),
             (''properties'', PyDict [(''bairro'', Esc (Texto ''Centro'')),
                                      (''latitude'', Esc (Texto '''')),
                                      (''longitude'', Esc (Texto ''-43.2''))])]"

definition feature_limpa :: pyval where
  "feature_limpa =
     PyDict [(''type'', Esc (Texto ''Feature'')),
             (''geometry'', Esc Nulo),
             (''properties'', PyDict [(''bairro'', Esc (Texto ''Centro'')),
                                      (''latitude'', Esc Nulo),
                                      (''longitude'', Esc (Texto ''-43.2''))])]"

definition documento_bruto :: pyval where
  "documento_bruto =
     PyDict [(''type'', Esc (Texto ''FeatureCollection'')),
             (''features'', PyList [feature_bruta, registro1])]"

definition documento_limpo :: pyval where
  "documento_limpo =
     PyDict [(''type'', Esc (Texto ''FeatureCollection'')),
             (''features'', PyList [feature_limpa, registro1])]"

definition estatisticas_exemplo :: estatisticas where
  "estatisticas_exemplo =
     \<lparr> coordenadas_vazias = 1, latitude_vazia = 1, longitude_vazia = 0, total_features = 2 \<rparr>"

text \<open>
  Documents for the reader: the first occurrence, a feature without geometry, the
  feature with empty coordinates, a feature whose geometry has no \<open>coordinates\<close>
  member, and a feature whose first coordinate is an integer beyond the range of a
  float.
\<close>

definition feature_sem_geometria :: pyval where
  "feature_sem_geometria =
     PyDict [(''type'', Esc (Texto ''Feature'')),
             (''geometry'', Esc Nulo),
             (''properties'', PyDict [(''bairro'', Esc (Texto ''Norte''))])]"

definition feature_sem_coordenadas :: pyval where
  "feature_sem_coordenadas =
     PyDict [(''type'', Esc (Texto ''Feature'')),
             (''geometry'', PyDict [(''type'', Esc (Texto ''Point''))]),
             (''properties'', PyDict [(''bairro'', Esc (Texto ''Centro''))])]"

definition feature_coordenada_enorme :: pyval where
  "feature_coordenada_enorme =
     PyDict [(''type'', Esc (Texto ''Feature'')),
             (''geometry'', PyDict [(''type'', Esc (Texto ''Point'')),
                                    (''coordinates'', PyList [Esc (Numero (10 ^ 400)), Esc (Numero 0)])]),
             (''properties'', PyDict [(''bairro'', Esc (Texto ''Centro''))])]"

definition documento_leitor :: pyval where
  "documento_leitor =
     PyDict [(''type'', Esc (Texto ''FeatureCollection'')),
             (''features'', PyList [registro1, feature_sem_geometria, feature_bruta])]"

definition documento_sem_coordenadas :: pyval where
  "documento_sem_coordenadas =
     PyDict [(''type'', Esc (Texto ''FeatureCollection'')),
             (''features'', PyList [feature_sem_geometria, feature_sem_coordenadas])]"

definition documento_coordenada_enorme :: pyval where
  "documento_coordenada_enorme =
     PyDict [(''type'', Esc (Texto ''FeatureCollection'')),
             (''features'', PyList [feature_coordenada_enorme])]"

text \<open>
  A library to run the reader with. Its \<open>float\<close> accepts the two numeric strings
  below and the numbers under \<open>10\<^sup>3\<^sup>0\<^sup>8\<close> in absolute value, all of which Python's
  accepts, and nothing else (of what the examples use, that leaves out the empty string
  and the integer \<open>10\<^sup>4\<^sup>0\<^sup>0\<close>, which Python's rejects). Its \<open>from_features\<close>
  raises \<open>KeyError\<close> on a geometry object without a \<open>coordinates\<close> member, as
  geopandas does, and otherwise makes of each feature a row with its geometry and its
  properties.
\<close>

definition geometria_sem_coordenadas :: "pyval \<Rightarrow> bool" where
  "geometria_sem_coordenadas feature =
     (case feature of
        PyDict kvs \<Rightarrow>
          (case dict_get kvs ''geometry'' (Esc Nulo) of
             PyDict g \<Rightarrow> ''coordinates'' \<notin> fst ` set g
           | _ \<Rightarrow> False)
      | _ \<Rightarrow> False)"

definition propriedades_de :: "pyval \<Rightarrow> linha" where
  "propriedades_de feature =
     (case feature of
        PyDict kvs \<Rightarrow> (case dict_get kvs ''properties'' (Esc Nulo) of PyDict ps \<Rightarrow> ps | _ \<Rightarrow> [])
      | _ \<Rightarrow> [])"

definition linha_de_feature :: "pyval \<Rightarrow> linha" where
  "linha_de_feature feature =
     (case feature of
        PyDict kvs \<Rightarrow> (''geometry'', dict_get kvs ''geometry'' (Esc Nulo)) # propriedades_de feature
      | _ \<Rightarrow> [])"

definition leitura_exemplo :: leitura where
  "leitura_exemplo =
     \<lparr> float_de_str = (\<lambda>s. s \<in> set [''-43.2'', ''-22.9'']),
       float_de_num = (\<lambda>r. \<bar>r\<bar> < 10 ^ 308),
       from_features = (\<lambda>fs.
          if list_ex geometria_sem_coordenadas fs then Inl KeyError
          else Inr \<lparr> colunas = ''geometry'' # remdups (concat (map (\<lambda>f. map fst (propriedades_de f)) fs)),
                     linhas = map linha_de_feature fs \<rparr>) \<rparr>"

definition tabela_leitor :: tabela where
  "tabela_leitor =
     \<lparr> colunas = [''geometry'', ''bairro'', ''tipo'', ''data_inicio''],
       linhas = [[(''geometry'', ponto (-43.18) (-22.90)),
                  (''bairro'', Esc (Texto ''Centro'')),
                  (''tipo'', Esc (Texto ''Alagamento'')),
                  (''data_inicio'', Esc (Texto ''2024-01-15''))]] \<rparr>"

text \<open>
  A document whose first feature has no date column, followed by the first occurrence
  of the scenario.
\<close>

definition documento_sem_coluna :: pyval where
  "documento_sem_coluna =
     PyDict [(''type'', Esc (Texto ''FeatureCollection'')),
             (''features'', PyList [feature_sem_geometria, registro1])]"

text \<open>
  The table of the three occurrences of the scenario, and the count tables the
  aggregator makes of it.
\<close>

definition linha_ocorrencia :: "string \<Rightarrow> string \<Rightarrow> string \<Rightarrow> linha" where
  "linha_ocorrencia bairro tipo data =
     [(''bairro'', Esc (Texto bairro)), (''tipo'', Esc (Texto tipo)),
      (''data_inicio'', Esc (Texto data))]"

definition tabela_exemplo :: tabela where
  "tabela_exemplo =
     \<lparr> colunas = [''geometry'', ''bairro'', ''tipo'', ''data_inicio''],
       linhas = [linha_ocorrencia ''Centro'' ''Alagamento'' ''2024-01-15'',
                 linha_ocorrencia ''Centro '' ''Alagamento'' ''2024-07-10'',
                 linha_ocorrencia ''Norte'' bolsao ''''] \<rparr>"

definition contagens_exemplo :: contagens where
  "contagens_exemplo =
     \<lparr> contagem_total =
         [Texto ''Centro'' \<mapsto> 1, Texto ''Centro '' \<mapsto> 1, Texto ''Norte'' \<mapsto> 1],
       contagem_por_tipo =
         [Texto ''Centro'' \<mapsto> [Texto ''Alagamento'' \<mapsto> 1],
          Texto ''Centro '' \<mapsto> [Texto ''Alagamento'' \<mapsto> 1],
          Texto ''Norte'' \<mapsto> [Texto bolsao \<mapsto> 1]],
       contagem_por_estacao =
         [Texto ''Centro'' \<mapsto> [''verao'' \<mapsto> 1],
          Texto ''Centro '' \<mapsto> [''inverno'' \<mapsto> 1]],
       contagem_por_tipo_estacao =
         [Texto ''Centro'' \<mapsto> [Texto ''Alagamento'' \<mapsto> [''verao'' \<mapsto> 1]],
          Texto ''Centro '' \<mapsto> [Texto ''Alagamento'' \<mapsto> [''inverno'' \<mapsto> 1]]],
       avisos = [] \<rparr>"

text \<open>
  The same tables as the Python dicts the aggregator returns, in the order of their
  items: the totals in the order of the grouping (sorted keys), the seasons in the order
  the loop creates the entries.
\<close>

definition itens_total_cenario :: "(escalar \<times> nat) list" where
  "itens_total_cenario = [(Texto ''Centro'', 1), (Texto ''Centro '', 1), (Texto ''Norte'', 1)]"

definition itens_estacao_cenario :: "(escalar \<times> (string \<times> nat) list) list" where
  "itens_estacao_cenario =
     [(Texto ''Centro'', [(''verao'', 1)]), (Texto ''Centro '', [(''inverno'', 1)])]"

text \<open>The total the specification expects of the scenario.\<close>

definition total_esperado_spec :: "escalar \<rightharpoonup> nat" where
  "total_esperado_spec = [Texto ''Centro'' \<mapsto> 2, Texto ''Norte'' \<mapsto> 1]"

text \<open>
  A table with the neighbourhood column only, a table without it, a table with the
  neighbourhood and the type and no date column, and a table whose neighbourhood cell
  holds a list.
\<close>

definition tabela_so_bairro :: tabela where
  "tabela_so_bairro =
     \<lparr> colunas = [''geometry'', ''bairro''],
       linhas = [[(''bairro'', Esc (Texto ''Centro''))], [(''bairro'', Esc (Texto ''Centro''))],
                 [(''bairro'', Esc Nulo)]] \<rparr>"

definition tabela_sem_bairro :: tabela where
  "tabela_sem_bairro =
     \<lparr> colunas = [''geometry'', ''tipo''], linhas = [[(''tipo'', Esc (Texto ''Alagamento''))]] \<rparr>"

definition tabela_sem_data :: tabela where
  "tabela_sem_data =
     \<lparr> colunas = [''geometry'', ''bairro'', ''tipo''],
       linhas = [[(''bairro'', Esc (Texto ''Centro'')), (''tipo'', Esc (Texto ''Alagamento''))],
                 [(''bairro'', Esc (Texto ''Centro'')), (''tipo'', Esc Nulo)],
                 [(''bairro'', Esc (Texto ''Centro'')), (''tipo'', Esc (Texto ''Alagamento''))],
                 [(''bairro'', Esc Nulo), (''tipo'', Esc (Texto ''Alagamento''))]] \<rparr>"

definition contagens_sem_data :: contagens where
  "contagens_sem_data =
     \<lparr> contagem_total = [Texto ''Centro'' \<mapsto> 3],
       contagem_por_tipo = [Texto ''Centro'' \<mapsto> [Texto ''Alagamento'' \<mapsto> 2]],
       contagem_por_estacao = Map.empty,
       contagem_por_tipo_estacao = Map.empty,
       avisos = [SemColunaData] \<rparr>"

definition tabela_bairro_lista :: tabela where
  "tabela_bairro_lista =
     \<lparr> colunas = [''geometry'', ''bairro''],
       linhas = [[(''bairro'', PyList [Esc (Texto ''Centro'')])]] \<rparr>"

definition contagens_so_bairro :: contagens where
  "contagens_so_bairro =
     \<lparr> contagem_total = [Texto ''Centro'' \<mapsto> 2],
       contagem_por_tipo = Map.empty,
       contagem_por_estacao = Map.empty,
       contagem_por_tipo_estacao = Map.empty,
       avisos = [SemColunaTipo, SemColunaData] \<rparr>"

text \<open>What the scenario asks of pandas: the two dates are parsed, the blank is not.\<close>

definition le_datas_do_cenario :: "pandas \<Rightarrow> bool" where
  "le_datas_do_cenario L =
     (to_datetime L ''2024-01-15'' = Inr (Some \<lparr>ano = 2024, mes = 1, dia = 15\<rparr>)
      \<and> to_datetime L ''2024-07-10'' = Inr (Some \<lparr>ano = 2024, mes = 7, dia = 10\<rparr>)
      \<and> nao_interpretavel L '''')"

section \<open>Properties of the season classifier\<close>

lemma estacao_de_mes_dia_mes_valido:
  assumes "1 \<le> m" and "m \<le> 12"
  shows "\<exists>s. estacao_de_mes_dia m d = Some s \<and> s \<in> set estacoes"
proof -
  from assms have "m = 1 \<or> m = 2 \<or> m = 3 \<or> m = 4 \<or> m = 5 \<or> m = 6
      \<or> m = 7 \<or> m = 8 \<or> m = 9 \<or> m = 10 \<or> m = 11 \<or> m = 12"
    by arith
  then show ?thesis
    by (elim disjE) (simp_all add: estacao_de_mes_dia_def estacoes_def)
qed

lemma estacao_de_mes_dia_intervalo:
  "estacao_de_mes_dia m d = Some s \<Longrightarrow> intervalo_spec s m d"
  unfolding estacao_de_mes_dia_def
  by (clarsimp simp: intervalo_spec_def split: if_splits)

lemma intervalo_spec_estacao:
  "intervalo_spec s m d \<Longrightarrow> estacao_de_mes_dia m d = Some s"
  unfolding intervalo_spec_def
  by (simp split: if_splits; elim disjE conjE; simp add: estacao_de_mes_dia_def)

lemma intervalo_spec_unico:
  assumes "intervalo_spec s m d" and "intervalo_spec s' m d"
  shows "s = s'"
proof -
  have "Some s = Some s'"
    using assms [THEN intervalo_spec_estacao] by simp
  then show ?thesis by simp
qed

lemma estacao_de_mes_dia_rotulo:
  "estacao_de_mes_dia m d = Some s \<Longrightarrow> s \<in> set estacoes"
  by (drule estacao_de_mes_dia_intervalo) (simp add: intervalo_spec_def estacoes_def split: if_splits)

lemma determinar_Instante:
  "determinar_estacao_hemisferio_sul L (Esc (Instante t)) = Inr (estacao_de_carimbo t)"
  by (simp add: determinar_estacao_hemisferio_sul_def corpo_determinar_estacao_def)

lemma determinar_Inr: "\<exists>r. determinar_estacao_hemisferio_sul L v = Inr r"
  by (simp add: determinar_estacao_hemisferio_sul_def split: sum.splits)

lemma determinar_nulo:
  "isna_escalar e \<Longrightarrow> determinar_estacao_hemisferio_sul L (Esc e) = Inr None"
  by (simp add: determinar_estacao_hemisferio_sul_def corpo_determinar_estacao_def)

lemma determinar_texto_ruim:
  "nao_interpretavel L s \<Longrightarrow> determinar_estacao_hemisferio_sul L (Esc (Texto s)) = Inr None"
  by (simp add: determinar_estacao_hemisferio_sul_def corpo_determinar_estacao_def
      nao_interpretavel_def split: sum.splits option.splits)

lemma determinar_nao_suportado:
  "\<not> tipo_suportado v \<Longrightarrow> determinar_estacao_hemisferio_sul L v = Inr None"
proof (cases v)
  case (Esc e)
  assume "\<not> tipo_suportado v"
  with Esc show ?thesis
    by (cases e) (simp_all add: determinar_estacao_hemisferio_sul_def corpo_determinar_estacao_def)
next
  case (PyList xs)
  then show ?thesis
    by (simp add: determinar_estacao_hemisferio_sul_def corpo_determinar_estacao_def
        split: sum.splits bool.splits)
next
  case (PyDict kvs)
  then show ?thesis
    by (simp add: determinar_estacao_hemisferio_sul_def corpo_determinar_estacao_def)
qed

lemma determinar_rotulo:
  assumes "determinar_estacao_hemisferio_sul L v = Inr (Some s)"
  shows "s \<in> set estacoes"
proof -
  from assms obtain t where "estacao_de_carimbo t = Some s"
    by (auto simp: determinar_estacao_hemisferio_sul_def corpo_determinar_estacao_def
        split: sum.splits bool.splits pyval.splits escalar.splits option.splits)
  then show ?thesis
    by (simp add: estacao_de_carimbo_def estacao_de_mes_dia_rotulo)
qed

lemma determinar_data_lida:
  assumes "data_lida L v = Some t"
  shows "determinar_estacao_hemisferio_sul L v = Inr (estacao_de_carimbo t)"
proof (cases v)
  case (Esc e)
  with assms show ?thesis
    by (cases e)
       (simp_all add: data_lida_def determinar_estacao_hemisferio_sul_def
          corpo_determinar_estacao_def split: sum.splits option.splits)
next
  case (PyList xs)
  with assms show ?thesis by (simp add: data_lida_def)
next
  case (PyDict kvs)
  with assms show ?thesis by (simp add: data_lida_def)
qed

lemma estacao_unica_da_data:
  assumes "data_valida m d"
  shows "\<exists>s. s \<in> set estacoes \<and> estacao_de_mes_dia m d = Some s \<and> intervalo_spec s m d
      \<and> (\<forall>s'. intervalo_spec s' m d \<longrightarrow> s' = s)"
proof -
  from assms have "1 \<le> m" and "m \<le> 12" by (simp_all add: data_valida_def)
  then obtain s where s: "estacao_de_mes_dia m d = Some s" and mem: "s \<in> set estacoes"
    using estacao_de_mes_dia_mes_valido by blast
  have i: "intervalo_spec s m d" using s by (rule estacao_de_mes_dia_intervalo)
  have u: "\<forall>s'. intervalo_spec s' m d \<longrightarrow> s' = s"
    using i intervalo_spec_unico by blast
  from mem s i u show ?thesis by (intro exI [of _ s] conjI)
qed

lemma determinar_no_limite:
  assumes "data_lida L v = Some t" and "mes t = m" and "dia t = d"
    and "estacao_de_mes_dia m d = Some s"
  shows "determinar_estacao_hemisferio_sul L v = Inr (Some s)"
  using assms by (simp add: determinar_data_lida estacao_de_carimbo_def)

text \<open>
  Claim C2. For every valid (month, day) pair of a calendar year the classifier returns
  one of the four season labels, never \<open>None\<close>; the label is the one whose range of
  the specification holds the date, and no other range holds it (the ranges are
  exhaustive and do not overlap). This holds of every value the classifier reads a date
  from: a timestamp, a \<open>datetime\<close> that pandas converts, a string that pandas parses.
  The start boundaries are inclusive: 20 March is autumn, 20 June winter, 22 September
  spring, 21 December summer, and the day before each is still the previous season.
\<close>

theorem estacao_exaustiva_e_disjunta:
  "(\<forall>v t. data_lida L v = Some t \<and> data_valida (mes t) (dia t) \<longrightarrow>
      (\<exists>s. s \<in> set estacoes
        \<and> determinar_estacao_hemisferio_sul L v = Inr (Some s)
        \<and> intervalo_spec s (mes t) (dia t)
        \<and> (\<forall>s'. intervalo_spec s' (mes t) (dia t) \<longrightarrow> s' = s)))
   \<and> (\<forall>x t. to_datetime L x = Inr (Some t) \<and> data_valida (mes t) (dia t) \<longrightarrow>
      (\<exists>s. s \<in> set estacoes
        \<and> determinar_estacao_hemisferio_sul L (Esc (Texto x)) = Inr (Some s)
        \<and> intervalo_spec s (mes t) (dia t)))
   \<and> (\<forall>x t. timestamp_de L x = Inr t \<and> data_valida (mes t) (dia t) \<longrightarrow>
      (\<exists>s. s \<in> set estacoes
        \<and> determinar_estacao_hemisferio_sul L (Esc (DataHora x)) = Inr (Some s)
        \<and> intervalo_spec s (mes t) (dia t)))
   \<and> (\<forall>m d y. data_valida m d \<longrightarrow>
      (\<exists>s. s \<in> set estacoes
        \<and> determinar_estacao_hemisferio_sul L (Esc (Instante \<lparr>ano = y, mes = m, dia = d\<rparr>)) = Inr (Some s)
        \<and> estacao_de_mes_dia m d = Some s
        \<and> intervalo_spec s m d
        \<and> (\<forall>s'. intervalo_spec s' m d \<longrightarrow> s' = s)))
   \<and> (\<forall>v t. data_lida L v = Some t \<longrightarrow>
        (mes t = 3 \<and> dia t = 20 \<longrightarrow> determinar_estacao_hemisferio_sul L v = Inr (Some ''outono''))
      \<and> (mes t = 6 \<and> dia t = 20 \<longrightarrow> determinar_estacao_hemisferio_sul L v = Inr (Some ''inverno''))
      \<and> (mes t = 9 \<and> dia t = 22 \<longrightarrow> determinar_estacao_hemisferio_sul L v = Inr (Some ''primavera''))
      \<and> (mes t = 12 \<and> dia t = 21 \<longrightarrow> determinar_estacao_hemisferio_sul L v = Inr (Some ''verao''))
      \<and> (mes t = 3 \<and> dia t = 19 \<longrightarrow> determinar_estacao_hemisferio_sul L v = Inr (Some ''verao''))
      \<and> (mes t = 6 \<and> dia t = 19 \<longrightarrow> determinar_estacao_hemisferio_sul L v = Inr (Some ''outono''))
      \<and> (mes t = 9 \<and> dia t = 21 \<longrightarrow> determinar_estacao_hemisferio_sul L v = Inr (Some ''inverno''))
      \<and> (mes t = 12 \<and> dia t = 20 \<longrightarrow> determinar_estacao_hemisferio_sul L v = Inr (Some ''primavera'')))
   \<and> estacao_de_mes_dia 3 20 = Some ''outono''
   \<and> estacao_de_mes_dia 6 20 = Some ''inverno''
   \<and> estacao_de_mes_dia 9 22 = Some ''primavera''
   \<and> estacao_de_mes_dia 12 21 = Some ''verao''
   \<and> estacao_de_mes_dia 3 19 = Some ''verao''
   \<and> estacao_de_mes_dia 6 19 = Some ''outono''
   \<and> estacao_de_mes_dia 9 21 = Some ''inverno''
   \<and> estacao_de_mes_dia 12 20 = Some ''primavera''"
proof -
  have lida: "\<exists>s. s \<in> set estacoes
        \<and> determinar_estacao_hemisferio_sul L v = Inr (Some s)
        \<and> intervalo_spec s (mes t) (dia t)
        \<and> (\<forall>s'. intervalo_spec s' (mes t) (dia t) \<longrightarrow> s' = s)"
    if l: "data_lida L v = Some t" and v: "data_valida (mes t) (dia t)" for v t
  proof -
    from estacao_unica_da_data [OF v] obtain s where mem: "s \<in> set estacoes"
      and s: "estacao_de_mes_dia (mes t) (dia t) = Some s"
      and i: "intervalo_spec s (mes t) (dia t)"
      and u: "\<forall>s'. intervalo_spec s' (mes t) (dia t) \<longrightarrow> s' = s"
      by (elim exE conjE)
    have c: "determinar_estacao_hemisferio_sul L v = Inr (Some s)"
      using l s by (simp add: determinar_data_lida estacao_de_carimbo_def)
    from mem c i u show ?thesis by (intro exI [of _ s] conjI)
  qed
  have c1: "\<forall>v t. data_lida L v = Some t \<and> data_valida (mes t) (dia t) \<longrightarrow>
      (\<exists>s. s \<in> set estacoes
        \<and> determinar_estacao_hemisferio_sul L v = Inr (Some s)
        \<and> intervalo_spec s (mes t) (dia t)
        \<and> (\<forall>s'. intervalo_spec s' (mes t) (dia t) \<longrightarrow> s' = s))"
    using lida by (intro allI impI) (elim conjE)
  have texto: "\<exists>s. s \<in> set estacoes
        \<and> determinar_estacao_hemisferio_sul L (Esc (Texto x)) = Inr (Some s)
        \<and> intervalo_spec s (mes t) (dia t)"
    if p: "to_datetime L x = Inr (Some t)" and v: "data_valida (mes t) (dia t)" for x t
  proof -
    from p have "data_lida L (Esc (Texto x)) = Some t" by (simp add: data_lida_def)
    from lida [OF this v] show ?thesis by (elim exE conjE) (intro exI conjI)
  qed
  have c2: "\<forall>x t. to_datetime L x = Inr (Some t) \<and> data_valida (mes t) (dia t) \<longrightarrow>
      (\<exists>s. s \<in> set estacoes
        \<and> determinar_estacao_hemisferio_sul L (Esc (Texto x)) = Inr (Some s)
        \<and> intervalo_spec s (mes t) (dia t))"
    using texto by (intro allI impI) (elim conjE)
  have datahora: "\<exists>s. s \<in> set estacoes
        \<and> determinar_estacao_hemisferio_sul L (Esc (DataHora x)) = Inr (Some s)
        \<and> intervalo_spec s (mes t) (dia t)"
    if p: "timestamp_de L x = Inr t" and v: "data_valida (mes t) (dia t)" for x t
  proof -
    from p have "data_lida L (Esc (DataHora x)) = Some t" by (simp add: data_lida_def)
    from lida [OF this v] show ?thesis by (elim exE conjE) (intro exI conjI)
  qed
  have c3: "\<forall>x t. timestamp_de L x = Inr t \<and> data_valida (mes t) (dia t) \<longrightarrow>
      (\<exists>s. s \<in> set estacoes
        \<and> determinar_estacao_hemisferio_sul L (Esc (DataHora x)) = Inr (Some s)
        \<and> intervalo_spec s (mes t) (dia t))"
    using datahora by (intro allI impI) (elim conjE)
  have geral: "\<exists>s. s \<in> set estacoes
        \<and> determinar_estacao_hemisferio_sul L (Esc (Instante \<lparr>ano = y, mes = m, dia = d\<rparr>)) = Inr (Some s)
        \<and> estacao_de_mes_dia m d = Some s
        \<and> intervalo_spec s m d
        \<and> (\<forall>s'. intervalo_spec s' m d \<longrightarrow> s' = s)"
    if v: "data_valida m d" for m d y
  proof -
    from estacao_unica_da_data [OF v] obtain s where mem: "s \<in> set estacoes"
      and s: "estacao_de_mes_dia m d = Some s"
      and i: "intervalo_spec s m d"
      and u: "\<forall>s'. intervalo_spec s' m d \<longrightarrow> s' = s"
      by (elim exE conjE)
    have c: "determinar_estacao_hemisferio_sul L (Esc (Instante \<lparr>ano = y, mes = m, dia = d\<rparr>)) = Inr (Some s)"
      using s by (simp add: determinar_Instante estacao_de_carimbo_def)
    from mem c s i u show ?thesis by (intro exI [of _ s] conjI)
  qed
  have c4: "\<forall>m d y. data_valida m d \<longrightarrow>
      (\<exists>s. s \<in> set estacoes
        \<and> determinar_estacao_hemisferio_sul L (Esc (Instante \<lparr>ano = y, mes = m, dia = d\<rparr>)) = Inr (Some s)
        \<and> estacao_de_mes_dia m d = Some s
        \<and> intervalo_spec s m d
        \<and> (\<forall>s'. intervalo_spec s' m d \<longrightarrow> s' = s))"
    using geral by (intro allI impI)
  have limites: "estacao_de_mes_dia 3 20 = Some ''outono''"
    "estacao_de_mes_dia 6 20 = Some ''inverno''"
    "estacao_de_mes_dia 9 22 = Some ''primavera''"
    "estacao_de_mes_dia 12 21 = Some ''verao''"
    "estacao_de_mes_dia 3 19 = Some ''verao''"
    "estacao_de_mes_dia 6 19 = Some ''outono''"
    "estacao_de_mes_dia 9 21 = Some ''inverno''"
    "estacao_de_mes_dia 12 20 = Some ''primavera''"
    by (simp_all add: estacao_de_mes_dia_def)
  have c5: "\<forall>v t. data_lida L v = Some t \<longrightarrow>
        (mes t = 3 \<and> dia t = 20 \<longrightarrow> determinar_estacao_hemisferio_sul L v = Inr (Some ''outono''))
      \<and> (mes t = 6 \<and> dia t = 20 \<longrightarrow> determinar_estacao_hemisferio_sul L v = Inr (Some ''inverno''))
      \<and> (mes t = 9 \<and> dia t = 22 \<longrightarrow> determinar_estacao_hemisferio_sul L v = Inr (Some ''primavera''))
      \<and> (mes t = 12 \<and> dia t = 21 \<longrightarrow> determinar_estacao_hemisferio_sul L v = Inr (Some ''verao''))
      \<and> (mes t = 3 \<and> dia t = 19 \<longrightarrow> determinar_estacao_hemisferio_sul L v = Inr (Some ''verao''))
      \<and> (mes t = 6 \<and> dia t = 19 \<longrightarrow> determinar_estacao_hemisferio_sul L v = Inr (Some ''outono''))
      \<and> (mes t = 9 \<and> dia t = 21 \<longrightarrow> determinar_estacao_hemisferio_sul L v = Inr (Some ''inverno''))
      \<and> (mes t = 12 \<and> dia t = 20 \<longrightarrow> determinar_estacao_hemisferio_sul L v = Inr (Some ''primavera''))"
    by (intro allI impI conjI; elim conjE; erule determinar_no_limite; (assumption | rule limites)+)
  from c1 c2 c3 c4 c5 limites show ?thesis by (intro conjI)
qed

theorem estacao_exaustiva_e_disjunta_witness:
  "data_valida 2 29
   \<and> determinar_estacao_hemisferio_sul pandas_exemplo
        (Esc (Instante \<lparr>ano = 2024, mes = 2, dia = 29\<rparr>)) = Inr (Some ''verao'')
   \<and> intervalo_spec ''verao'' 2 29
   \<and> \<not> intervalo_spec ''outono'' 2 29
   \<and> to_datetime pandas_exemplo ''2024-07-10'' = Inr (Some \<lparr>ano = 2024, mes = 7, dia = 10\<rparr>)
   \<and> data_valida 7 10
   \<and> determinar_estacao_hemisferio_sul pandas_exemplo (Esc (Texto ''2024-07-10'')) = Inr (Some ''inverno'')
   \<and> timestamp_de pandas_exemplo \<lparr>ano = 2024, mes = 3, dia = 20\<rparr> = Inr \<lparr>ano = 2024, mes = 3, dia = 20\<rparr>
   \<and> data_lida pandas_exemplo (Esc (DataHora \<lparr>ano = 2024, mes = 3, dia = 20\<rparr>))
       = Some \<lparr>ano = 2024, mes = 3, dia = 20\<rparr>
   \<and> determinar_estacao_hemisferio_sul pandas_exemplo
        (Esc (DataHora \<lparr>ano = 2024, mes = 3, dia = 20\<rparr>)) = Inr (Some ''outono'')"
proof -
  note t = estacao_exaustiva_e_disjunta [of pandas_exemplo]
  have v: "data_valida 2 29"
    by (simp add: data_valida_def dias_no_mes_def)
  from t have "\<forall>m d y. data_valida m d \<longrightarrow>
      (\<exists>s. s \<in> set estacoes
        \<and> determinar_estacao_hemisferio_sul pandas_exemplo (Esc (Instante \<lparr>ano = y, mes = m, dia = d\<rparr>)) = Inr (Some s)
        \<and> estacao_de_mes_dia m d = Some s
        \<and> intervalo_spec s m d
        \<and> (\<forall>s'. intervalo_spec s' m d \<longrightarrow> s' = s))"
    by (elim conjE)
  with v obtain s where s: "determinar_estacao_hemisferio_sul pandas_exemplo
        (Esc (Instante \<lparr>ano = 2024, mes = 2, dia = 29\<rparr>)) = Inr (Some s)"
      and e: "estacao_de_mes_dia 2 29 = Some s"
      and i: "intervalo_spec s 2 29"
      and u: "\<forall>s'. intervalo_spec s' 2 29 \<longrightarrow> s' = s"
    by blast
  from e have sv: "s = ''verao''" by (simp add: estacao_de_mes_dia_def)
  have n: "\<not> intervalo_spec ''outono'' 2 29"
  proof
    assume "intervalo_spec ''outono'' 2 29"
    with u have "''outono'' = s" by blast
    with sv show False by simp
  qed
  have p: "to_datetime pandas_exemplo ''2024-07-10'' = Inr (Some \<lparr>ano = 2024, mes = 7, dia = 10\<rparr>)"
    by (simp add: pandas_exemplo_def)
  have v2: "data_valida 7 10"
    by (simp add: data_valida_def dias_no_mes_def)
  from t have "\<forall>x t. to_datetime pandas_exemplo x = Inr (Some t) \<and> data_valida (mes t) (dia t) \<longrightarrow>
      (\<exists>s. s \<in> set estacoes
        \<and> determinar_estacao_hemisferio_sul pandas_exemplo (Esc (Texto x)) = Inr (Some s)
        \<and> intervalo_spec s (mes t) (dia t))"
    by (elim conjE)
  from this [rule_format, of "''2024-07-10''" "\<lparr>ano = 2024, mes = 7, dia = 10\<rparr>"] p v2
  obtain s2 where s2: "determinar_estacao_hemisferio_sul pandas_exemplo (Esc (Texto ''2024-07-10'')) = Inr (Some s2)"
      and i2: "intervalo_spec s2 7 10"
    by auto
  from i2 have "estacao_de_mes_dia 7 10 = Some s2" by (rule intervalo_spec_estacao)
  then have sv2: "s2 = ''inverno''" by (simp add: estacao_de_mes_dia_def)
  have q: "timestamp_de pandas_exemplo \<lparr>ano = 2024, mes = 3, dia = 20\<rparr> = Inr \<lparr>ano = 2024, mes = 3, dia = 20\<rparr>"
    by (simp add: pandas_exemplo_def)
  then have l: "data_lida pandas_exemplo (Esc (DataHora \<lparr>ano = 2024, mes = 3, dia = 20\<rparr>))
       = Some \<lparr>ano = 2024, mes = 3, dia = 20\<rparr>"
    by (simp add: data_lida_def)
  from t have "\<forall>v t. data_lida pandas_exemplo v = Some t \<longrightarrow>
        (mes t = 3 \<and> dia t = 20 \<longrightarrow> determinar_estacao_hemisferio_sul pandas_exemplo v = Inr (Some ''outono''))
      \<and> (mes t = 6 \<and> dia t = 20 \<longrightarrow> determinar_estacao_hemisferio_sul pandas_exemplo v = Inr (Some ''inverno''))
      \<and> (mes t = 9 \<and> dia t = 22 \<longrightarrow> determinar_estacao_hemisferio_sul pandas_exemplo v = Inr (Some ''primavera''))
      \<and> (mes t = 12 \<and> dia t = 21 \<longrightarrow> determinar_estacao_hemisferio_sul pandas_exemplo v = Inr (Some ''verao''))
      \<and> (mes t = 3 \<and> dia t = 19 \<longrightarrow> determinar_estacao_hemisferio_sul pandas_exemplo v = Inr (Some ''verao''))
      \<and> (mes t = 6 \<and> dia t = 19 \<longrightarrow> determinar_estacao_hemisferio_sul pandas_exemplo v = Inr (Some ''outono''))
      \<and> (mes t = 9 \<and> dia t = 21 \<longrightarrow> determinar_estacao_hemisferio_sul pandas_exemplo v = Inr (Some ''inverno''))
      \<and> (mes t = 12 \<and> dia t = 20 \<longrightarrow> determinar_estacao_hemisferio_sul pandas_exemplo v = Inr (Some ''primavera''))"
    by (elim conjE)
  from this [rule_format, OF l]
  have b: "determinar_estacao_hemisferio_sul pandas_exemplo
        (Esc (DataHora \<lparr>ano = 2024, mes = 3, dia = 20\<rparr>)) = Inr (Some ''outono'')"
    by simp
  from v s sv i n p v2 s2 sv2 q l b show ?thesis by simp
qed

text \<open>
  Claim C3. The classifier never raises: whatever the argument and whatever pandas does
  with it, a result comes back. For a null argument (\<open>None\<close>, \<open>NaN\<close>, \<open>NaT\<close>), for a
  string that pandas does not parse as a date (it answers \<open>NaT\<close> or raises), and for
  an argument that is neither a timestamp, a \<open>datetime\<close> nor a string, the result is
  \<open>None\<close>.
\<close>

theorem determinar_estacao_nunca_levanta:
  "(\<exists>r. determinar_estacao_hemisferio_sul L v = Inr r)
   \<and> (\<forall>e. isna_escalar e \<longrightarrow> determinar_estacao_hemisferio_sul L (Esc e) = Inr None)
   \<and> (\<forall>s. nao_interpretavel L s \<longrightarrow> determinar_estacao_hemisferio_sul L (Esc (Texto s)) = Inr None)
   \<and> (\<forall>w. \<not> tipo_suportado w \<longrightarrow> determinar_estacao_hemisferio_sul L w = Inr None)"
  using determinar_Inr determinar_nulo determinar_texto_ruim determinar_nao_suportado
  by blast

theorem determinar_estacao_nunca_levanta_witness:
  "isna_escalar NaN
   \<and> determinar_estacao_hemisferio_sul pandas_nulo (Esc NaN) = Inr None
   \<and> nao_interpretavel pandas_nulo ''not-a-date''
   \<and> determinar_estacao_hemisferio_sul pandas_nulo (Esc (Texto ''not-a-date'')) = Inr None
   \<and> \<not> tipo_suportado (PyList [Esc Nulo, Esc Nulo])
   \<and> pd_isna pandas_nulo (PyList [Esc Nulo, Esc Nulo]) = Inl ValueError
   \<and> determinar_estacao_hemisferio_sul pandas_nulo (PyList [Esc Nulo, Esc Nulo]) = Inr None
   \<and> determinar_estacao_hemisferio_sul pandas_nulo (Esc Nulo) = Inr None"
proof -
  have a: "isna_escalar NaN" by simp
  have b: "nao_interpretavel pandas_nulo ''not-a-date''"
    by (simp add: nao_interpretavel_def pandas_nulo_def)
  have c: "\<not> tipo_suportado (PyList [Esc Nulo, Esc Nulo])" by simp
  have d: "pd_isna pandas_nulo (PyList [Esc Nulo, Esc Nulo]) = Inl ValueError"
    by (simp add: pandas_nulo_def)
  have n: "isna_escalar Nulo" by simp
  note t = determinar_estacao_nunca_levanta [of pandas_nulo "Esc Nulo"]
  from t a have a': "determinar_estacao_hemisferio_sul pandas_nulo (Esc NaN) = Inr None" by blast
  from t n have n': "determinar_estacao_hemisferio_sul pandas_nulo (Esc Nulo) = Inr None" by blast
  from t b have b': "determinar_estacao_hemisferio_sul pandas_nulo (Esc (Texto ''not-a-date'')) = Inr None"
    by blast
  from t c have c': "determinar_estacao_hemisferio_sul pandas_nulo (PyList [Esc Nulo, Esc Nulo]) = Inr None"
    by blast
  from a a' b b' c d c' n' show ?thesis by (intro conjI)
qed

section \<open>Properties of the season splitter\<close>

lemma particao_anexar:
  "particao (st\<lparr>ocorrencias_por_estacao := anexar k f (ocorrencias_por_estacao st)\<rparr>) s =
     (if s = k then particao st k @ [f] else particao st s)"
  by (simp add: particao_def anexar_def update_conv')

lemma particao_contadores [simp]:
  "particao (st\<lparr>ocorrencias_sem_data := n\<rparr>) s = particao st s"
  "particao (st\<lparr>ocorrencias_sem_estacao := n\<rparr>) s = particao st s"
  by (simp_all add: particao_def)

lemma processar_feature_particao:
  assumes "processar_feature L col f st = Inr st'"
  shows "particao st' s = particao st s @ filter (\<lambda>x. pertence L col x = Some s) [f]"
proof -
  from assms obtain props v where p: "py_get f ''properties'' (PyDict []) = Inr props"
    and v: "py_get props col (Esc Nulo) = Inr v"
    by (auto simp: processar_feature_def split: sum.splits)
  have vd: "valor_data col f = v" by (simp add: valor_data_def p v)
  show ?thesis
  proof (cases "data_em_branco v")
    case True
    with assms p v vd show ?thesis
      by (auto simp: processar_feature_def pertence_def)
  next
    case False
    obtain r where r: "determinar_estacao_hemisferio_sul L v = Inr r"
      using determinar_Inr by blast
    show ?thesis
    proof (cases r)
      case None
      with assms p v vd False r show ?thesis
        by (auto simp: processar_feature_def pertence_def)
    next
      case (Some e)
      with assms p v False r have "st' = st\<lparr>ocorrencias_por_estacao :=
                              anexar e f (ocorrencias_por_estacao st)\<rparr>"
        by (auto simp: processar_feature_def)
      with vd False r Some show ?thesis
        by (auto simp: particao_anexar pertence_def)
    qed
  qed
qed

lemma processar_features_particao:
  "processar_features L col fs st = Inr st' \<Longrightarrow>
     particao st' s = particao st s @ filter (\<lambda>x. pertence L col x = Some s) fs"
proof (induction fs arbitrary: st)
  case Nil
  then show ?case by simp
next
  case (Cons f fs)
  from Cons.prems obtain st1 where a: "processar_feature L col f st = Inr st1"
    and b: "processar_features L col fs st1 = Inr st'"
    by (auto split: sum.splits)
  from Cons.IH [OF b] processar_feature_particao [OF a, of s]
  show ?case by simp
qed

lemma particao_vazio [simp]: "particao agrupamento_vazio s = []"
  by (simp add: particao_def agrupamento_vazio_def)

lemma extrair_particao:
  assumes "extrair_ocorrencias_por_estacao L d = Inr g"
  shows "particao g s = filter (\<lambda>f. estacao_da_feature L d f = Some s) (features_de d)"
proof -
  from assms obtain kvs where d: "d = PyDict kvs"
    by (cases d) (auto simp: extrair_ocorrencias_por_estacao_def)
  define features where "features = dict_get kvs ''features'' (PyList [])"
  show ?thesis
  proof (cases "verdadeiro features")
    case False
    with assms d have g: "g = agrupamento_vazio"
      by (auto simp: extrair_ocorrencias_por_estacao_def features_def)
    from False have "features_de d = []"
      by (cases features) (auto simp: features_de_def d features_def [symmetric] split: pyval.splits)
    with g show ?thesis by simp
  next
    case True
    with assms d obtain fs where fs: "features = PyList fs"
      by (cases features rule: lista_de_features.cases)
         (auto simp: extrair_ocorrencias_por_estacao_def features_def [symmetric])
    with True obtain f resto where fr: "fs = f # resto" by (cases fs) auto
    have fd: "features_de d = f # resto"
      by (simp add: features_de_def d features_def [symmetric] fs fr)
    from assms d True fs fr obtain props where p: "py_get f ''properties'' (PyDict []) = Inr props"
      by (auto simp: extrair_ocorrencias_por_estacao_def features_def [symmetric] split: sum.splits)
    from assms d True fs fr p obtain c where c: "primeira_coluna colunas_data props = Inr c"
      by (auto simp: extrair_ocorrencias_por_estacao_def features_def [symmetric] split: sum.splits)
    have cr: "coluna_resolvida d = c"
      by (simp add: coluna_resolvida_def fd p c)
    show ?thesis
    proof (cases c)
      case None
      with assms d True fs fr p c have "g = agrupamento_vazio"
        by (auto simp: extrair_ocorrencias_por_estacao_def features_def [symmetric])
      with cr None show ?thesis by (simp add: estacao_da_feature_def)
    next
      case (Some col)
      with assms d True fs fr p c
      have "processar_features L col (f # resto) agrupamento_vazio = Inr g"
        by (auto simp: extrair_ocorrencias_por_estacao_def features_def [symmetric])
      from processar_features_particao [OF this, of s]
      have "particao g s = filter (\<lambda>x. pertence L col x = Some s) (f # resto)"
        by simp
      moreover have "pertence L col x = estacao_da_feature L d x" for x
        by (simp add: pertence_def estacao_da_feature_def cr Some)
      ultimately show ?thesis by (simp add: fd)
    qed
  qed
qed

lemma estacao_da_feature_rotulo:
  assumes "estacao_da_feature L d f = Some s" shows "s \<in> set estacoes"
proof -
  from assms obtain v where "determinar_estacao_hemisferio_sul L v = Inr (Some s)"
    by (auto simp: estacao_da_feature_def split: option.splits if_splits sum.splits)
  then show ?thesis by (rule determinar_rotulo)
qed

lemma soma_particoes:
  "(\<Sum>s\<leftarrow>estacoes. mset (filter (\<lambda>f. h f = Some s) fs))
     = mset (filter (\<lambda>f. \<exists>s \<in> set estacoes. h f = Some s) fs)"
proof (induction fs)
  case Nil
  then show ?case by (simp add: estacoes_def)
next
  case (Cons f fs)
  have "(\<Sum>s\<leftarrow>estacoes. mset (filter (\<lambda>x. h x = Some s) [f]))
          = mset (filter (\<lambda>x. \<exists>s \<in> set estacoes. h x = Some s) [f])"
    by (cases "h f") (auto simp: estacoes_def)
  moreover have "(\<Sum>s\<leftarrow>estacoes. mset (filter (\<lambda>x. h x = Some s) (f # fs)))
     = (\<Sum>s\<leftarrow>estacoes. mset (filter (\<lambda>x. h x = Some s) [f]))
       + (\<Sum>s\<leftarrow>estacoes. mset (filter (\<lambda>x. h x = Some s) fs))"
    by (simp add: estacoes_def)
  ultimately show ?case using Cons.IH by simp
qed

lemma propriedades_ocorrencia:
  "py_get (ocorrencia g b t d) ''properties'' (PyDict []) =
     Inr (PyDict [(''bairro'', Esc (Texto b)), (''tipo'', Esc (Texto t)), (''data_inicio'', Esc (Texto d))])"
  by (simp add: ocorrencia_def dict_get_def)

lemma valor_data_ocorrencia:
  "valor_data ''data_inicio'' (ocorrencia g b t d) = Esc (Texto d)"
  by (simp add: valor_data_def propriedades_ocorrencia dict_get_def)

lemma processar_ocorrencia:
  "processar_feature L ''data_inicio'' (ocorrencia g b t d) st =
     (if strip d = [] then Inr (st\<lparr>ocorrencias_sem_data := ocorrencias_sem_data st + 1\<rparr>)
      else (case determinar_estacao_hemisferio_sul L (Esc (Texto d)) of
              Inl e \<Rightarrow> Inl e
            | Inr None \<Rightarrow> Inr (st\<lparr>ocorrencias_sem_estacao := ocorrencias_sem_estacao st + 1\<rparr>)
            | Inr (Some estacao) \<Rightarrow>
                Inr (st\<lparr>ocorrencias_por_estacao :=
                           anexar estacao (ocorrencia g b t d) (ocorrencias_por_estacao st)\<rparr>)))"
  by (simp add: processar_feature_def propriedades_ocorrencia dict_get_def data_em_branco_def)

lemma determinar_cenario:
  assumes "le_datas_do_cenario L"
  shows "determinar_estacao_hemisferio_sul L (Esc (Texto ''2024-01-15'')) = Inr (Some ''verao'')"
    and "determinar_estacao_hemisferio_sul L (Esc (Texto ''2024-07-10'')) = Inr (Some ''inverno'')"
    and "determinar_estacao_hemisferio_sul L (Esc (Texto '''')) = Inr None"
proof -
  from assms have a: "to_datetime L ''2024-01-15'' = Inr (Some \<lparr>ano = 2024, mes = 1, dia = 15\<rparr>)"
    and b: "to_datetime L ''2024-07-10'' = Inr (Some \<lparr>ano = 2024, mes = 7, dia = 10\<rparr>)"
    and c: "nao_interpretavel L ''''"
    by (simp_all add: le_datas_do_cenario_def)
  show "determinar_estacao_hemisferio_sul L (Esc (Texto ''2024-01-15'')) = Inr (Some ''verao'')"
    by (simp add: determinar_estacao_hemisferio_sul_def corpo_determinar_estacao_def a
        estacao_de_carimbo_def estacao_de_mes_dia_def)
  show "determinar_estacao_hemisferio_sul L (Esc (Texto ''2024-07-10'')) = Inr (Some ''inverno'')"
    by (simp add: determinar_estacao_hemisferio_sul_def corpo_determinar_estacao_def b
        estacao_de_carimbo_def estacao_de_mes_dia_def)
  show "determinar_estacao_hemisferio_sul L (Esc (Texto '''')) = Inr None"
    using c by (rule determinar_texto_ruim)
qed

lemma le_datas_exemplo: "le_datas_do_cenario pandas_exemplo"
  by (simp add: le_datas_do_cenario_def pandas_exemplo_def nao_interpretavel_def)

lemma strip_exemplo:
  "strip ''2024-01-15'' = ''2024-01-15''" "strip ''2024-07-10'' = ''2024-07-10''" "strip '''' = ''''"
  by (simp_all add: strip_def espaco_def)

lemma coluna_exemplo:
  "primeira_coluna colunas_data (PyDict [(''bairro'', Esc (Texto b)),
      (''tipo'', Esc (Texto t)), (''data_inicio'', Esc (Texto d))]) = Inr (Some ''data_inicio'')"
  by (simp add: colunas_data_def)

lemma extrair_cenario:
  assumes "le_datas_do_cenario L"
  shows "extrair_ocorrencias_por_estacao L documento_exemplo = Inr agrupamento_exemplo"
  by (simp add: extrair_ocorrencias_por_estacao_def documento_exemplo_def dict_get_def
      registro1_def registro2_def registro3_def propriedades_ocorrencia coluna_exemplo
      processar_ocorrencia strip_exemplo determinar_cenario [OF assms] agrupamento_vazio_def
      anexar_def agrupamento_exemplo_def)

lemma extrair_exemplo:
  "extrair_ocorrencias_por_estacao pandas_exemplo documento_exemplo = Inr agrupamento_exemplo"
  using le_datas_exemplo by (rule extrair_cenario)

text \<open>
  Claim C9. Whenever the splitter returns, the partition of a season is the list of the
  input features classified to that season, in input order, where every feature is read
  in the date column resolved from the first feature (the first of \<open>data_inicio\<close>,
  \<open>data_fim\<close>, \<open>data_particao\<close> among the first feature's properties). So no feature
  is in the partitions of two seasons; the union of the four partitions is the input
  minus the features whose value in that column is missing or blank or a date the
  classifier does not know; counted with multiplicity, every feature with a season is in
  the partitions exactly once; no partition exists outside the four labels; and when the
  first feature has none of the three date columns, every partition is empty, whatever
  dates the other features carry.
\<close>

theorem particoes_disjuntas_e_completas:
  assumes "extrair_ocorrencias_por_estacao L d = Inr g"
  shows "(\<forall>s s'. s \<noteq> s' \<longrightarrow> set (particao g s) \<inter> set (particao g s') = {})
    \<and> (\<Union>s \<in> set estacoes. set (particao g s))
         = set (features_de d) - {f. estacao_da_feature L d f = None}
    \<and> (\<Sum>s\<leftarrow>estacoes. mset (particao g s))
         = mset (filter (\<lambda>f. estacao_da_feature L d f \<noteq> None) (features_de d))
    \<and> (\<forall>s. s \<notin> set estacoes \<longrightarrow> particao g s = [])
    \<and> (\<forall>s. particao g s = filter (\<lambda>f. estacao_da_feature L d f = Some s) (features_de d))
    \<and> (\<forall>col f. coluna_resolvida d = Some col \<longrightarrow>
          (estacao_da_feature L d f = None \<longleftrightarrow>
             data_em_branco (valor_data col f)
             \<or> determinar_estacao_hemisferio_sul L (valor_data col f) = Inr None))
    \<and> (coluna_resolvida d = None \<longrightarrow> (\<forall>s. particao g s = []))"
proof -
  note p = extrair_particao [OF assms]
  have rot: "estacao_da_feature L d f \<noteq> None \<longleftrightarrow> (\<exists>s \<in> set estacoes. estacao_da_feature L d f = Some s)" for f
    using estacao_da_feature_rotulo by fastforce
  have a: "\<forall>s s'. s \<noteq> s' \<longrightarrow> set (particao g s) \<inter> set (particao g s') = {}"
    by (auto simp: p)
  have b: "(\<Union>s \<in> set estacoes. set (particao g s))
         = set (features_de d) - {f. estacao_da_feature L d f = None}"
  proof (rule set_eqI)
    fix x
    show "x \<in> (\<Union>s \<in> set estacoes. set (particao g s))
        \<longleftrightarrow> x \<in> set (features_de d) - {f. estacao_da_feature L d f = None}"
      using estacao_da_feature_rotulo [of L d x]
      by (cases "estacao_da_feature L d x") (auto simp: p)
  qed
  have c: "(\<Sum>s\<leftarrow>estacoes. mset (particao g s))
         = mset (filter (\<lambda>f. estacao_da_feature L d f \<noteq> None) (features_de d))"
  proof -
    have "(\<lambda>f. estacao_da_feature L d f \<noteq> None)
            = (\<lambda>f. \<exists>s \<in> set estacoes. estacao_da_feature L d f = Some s)"
      using rot by (intro ext)
    moreover have "(\<Sum>s\<leftarrow>estacoes. mset (particao g s))
        = (\<Sum>s\<leftarrow>estacoes. mset (filter (\<lambda>f. estacao_da_feature L d f = Some s) (features_de d)))"
      by (simp only: p)
    ultimately show ?thesis by (simp only: soma_particoes)
  qed
  have e: "\<forall>s. s \<notin> set estacoes \<longrightarrow> particao g s = []"
    using estacao_da_feature_rotulo by (auto simp: p filter_empty_conv)
  have q: "\<forall>s. particao g s = filter (\<lambda>f. estacao_da_feature L d f = Some s) (features_de d)"
    using p by (rule allI)
  have h: "estacao_da_feature L d f = None \<longleftrightarrow>
             data_em_branco (valor_data col f)
             \<or> determinar_estacao_hemisferio_sul L (valor_data col f) = Inr None"
    if "coluna_resolvida d = Some col" for col f
    using that determinar_Inr [of L "valor_data col f"]
    by (auto simp: estacao_da_feature_def)
  have h': "\<forall>col f. coluna_resolvida d = Some col \<longrightarrow>
          (estacao_da_feature L d f = None \<longleftrightarrow>
             data_em_branco (valor_data col f)
             \<or> determinar_estacao_hemisferio_sul L (valor_data col f) = Inr None)"
    using h by (intro allI impI)
  have k: "coluna_resolvida d = None \<longrightarrow> (\<forall>s. particao g s = [])"
    by (simp add: p estacao_da_feature_def)
  from a b c e q h' k show ?thesis by (intro conjI)
qed

theorem particoes_disjuntas_e_completas_witness:
  "extrair_ocorrencias_por_estacao pandas_exemplo documento_exemplo = Inr agrupamento_exemplo
   \<and> set (particao agrupamento_exemplo ''verao'') \<inter> set (particao agrupamento_exemplo ''inverno'') = {}
   \<and> particao agrupamento_exemplo ''verao''
        = filter (\<lambda>f. estacao_da_feature pandas_exemplo documento_exemplo f = Some ''verao'')
            (features_de documento_exemplo)
   \<and> particao agrupamento_exemplo ''verao'' = [registro1]
   \<and> particao agrupamento_exemplo ''inverno'' = [registro2]
   \<and> (\<Sum>s\<leftarrow>estacoes. mset (particao agrupamento_exemplo s))
        = mset (filter (\<lambda>f. estacao_da_feature pandas_exemplo documento_exemplo f \<noteq> None)
            (features_de documento_exemplo))"
proof -
  note t = particoes_disjuntas_e_completas [OF extrair_exemplo]
  have ne: "''verao'' \<noteq> ''inverno''" by simp
  from t have "\<forall>s s'. s \<noteq> s' \<longrightarrow>
      set (particao agrupamento_exemplo s) \<inter> set (particao agrupamento_exemplo s') = {}"
    by (rule conjunct1)
  with ne have a: "set (particao agrupamento_exemplo ''verao'')
      \<inter> set (particao agrupamento_exemplo ''inverno'') = {}"
    by (elim allE impE)
  from t have "\<forall>s. particao agrupamento_exemplo s
        = filter (\<lambda>f. estacao_da_feature pandas_exemplo documento_exemplo f = Some s)
            (features_de documento_exemplo)"
    by (elim conjE)
  then have b: "particao agrupamento_exemplo ''verao''
        = filter (\<lambda>f. estacao_da_feature pandas_exemplo documento_exemplo f = Some ''verao'')
            (features_de documento_exemplo)"
    by (rule spec)
  from t have c: "(\<Sum>s\<leftarrow>estacoes. mset (particao agrupamento_exemplo s))
        = mset (filter (\<lambda>f. estacao_da_feature pandas_exemplo documento_exemplo f \<noteq> None)
            (features_de documento_exemplo))"
    by (elim conjE)
  have d: "particao agrupamento_exemplo ''verao'' = [registro1]"
    "particao agrupamento_exemplo ''inverno'' = [registro2]"
    by (simp_all add: particao_def agrupamento_exemplo_def)
  from extrair_exemplo a b c d show ?thesis by (intro conjI)
qed

text \<open>
  The first feature of \<open>documento_sem_coluna\<close> has no date column, so the splitter
  returns no partition; yet the second feature is the first occurrence of the scenario,
  whose own date is present, not blank, and classified as summer.
\<close>

theorem primeira_feature_sem_coluna_de_data:
  "extrair_ocorrencias_por_estacao pandas_exemplo documento_sem_coluna = Inr agrupamento_vazio
   \<and> features_de documento_sem_coluna = [feature_sem_geometria, registro1]
   \<and> data_propria registro1 = Esc (Texto ''2024-01-15'')
   \<and> \<not> data_em_branco (data_propria registro1)
   \<and> determinar_estacao_hemisferio_sul pandas_exemplo (data_propria registro1) = Inr (Some ''verao'')
   \<and> particao agrupamento_vazio ''verao'' = []
   \<and> particao agrupamento_vazio ''outono'' = []
   \<and> particao agrupamento_vazio ''inverno'' = []
   \<and> particao agrupamento_vazio ''primavera'' = []"
proof -
  have a: "extrair_ocorrencias_por_estacao pandas_exemplo documento_sem_coluna = Inr agrupamento_vazio"
    by (simp add: extrair_ocorrencias_por_estacao_def documento_sem_coluna_def dict_get_def
        feature_sem_geometria_def colunas_data_def)
  have b: "features_de documento_sem_coluna = [feature_sem_geometria, registro1]"
    by (simp add: features_de_def documento_sem_coluna_def dict_get_def)
  have c: "data_propria registro1 = Esc (Texto ''2024-01-15'')"
    by (simp add: data_propria_def registro1_def propriedades_ocorrencia coluna_exemplo
        valor_data_ocorrencia)
  have d: "\<not> data_em_branco (Esc (Texto ''2024-01-15''))"
    by (simp add: data_em_branco_def strip_exemplo)
  have e: "determinar_estacao_hemisferio_sul pandas_exemplo (Esc (Texto ''2024-01-15'')) = Inr (Some ''verao'')"
    using le_datas_exemplo by (rule determinar_cenario)
  from a b c d e show ?thesis by simp
qed

section \<open>Properties of the GeoJSON fixer\<close>

lemma iguais_fora_refl [simp]: "iguais_fora K kvs kvs"
  by (simp add: iguais_fora_def)

lemma iguais_fora_update:
  "k \<in> fst ` set kvs \<Longrightarrow> k \<in> K \<Longrightarrow> iguais_fora K kvs (AList.update k v kvs)"
  by (auto simp: iguais_fora_def update_keys update_conv')

lemma iguais_fora_trans:
  "iguais_fora K a b \<Longrightarrow> iguais_fora K b c \<Longrightarrow> iguais_fora K a c"
  by (simp add: iguais_fora_def)

lemma dict_get_chave:
  "dict_get kvs k (Esc Nulo) = v \<Longrightarrow> v \<noteq> Esc Nulo \<Longrightarrow> map_of kvs k = Some v"
  by (auto simp: dict_get_def split: option.splits)

lemma map_of_chave: "map_of kvs k = Some v \<Longrightarrow> k \<in> fst ` set kvs"
  by (metis domI dom_map_of_conv_image_fst)

lemma geometria_vazia_iff: "geometria_vazia kvs = coordenadas_sao_par_vazio kvs"
proof
  assume g: "geometria_vazia kvs"
  then obtain gk where a: "dict_get kvs ''geometry'' (Esc Nulo) = PyDict gk"
    and b: "dict_get gk ''coordinates'' (Esc Nulo) = par_vazio"
    by (auto simp: geometria_vazia_def split: pyval.splits)
  from a have "map_of kvs ''geometry'' = Some (PyDict gk)" by (rule dict_get_chave) simp
  moreover from b have "map_of gk ''coordinates'' = Some par_vazio"
    by (rule dict_get_chave) (simp add: par_vazio_def)
  ultimately show "coordenadas_sao_par_vazio kvs"
    by (auto simp: coordenadas_sao_par_vazio_def)
next
  assume "coordenadas_sao_par_vazio kvs"
  then obtain gk where a: "map_of kvs ''geometry'' = Some (PyDict gk)"
    and b: "map_of gk ''coordinates'' = Some par_vazio"
    by (auto simp: coordenadas_sao_par_vazio_def)
  from b have "gk \<noteq> []" by auto
  with a b show "geometria_vazia kvs"
    by (simp add: geometria_vazia_def dict_get_def)
qed

lemma corrigir_campo_props:
  assumes "corrigir_campo c h (props, st, b) = (props', st', b')"
  shows "iguais_fora {c} props props'"
    and "map_of props' c = campo_corrigido (map_of props c)"
proof -
  show "iguais_fora {c} props props'"
  proof (cases "dict_get props c (Esc Nulo) = Esc (Texto '''')")
    case True
    then have "map_of props c = Some (Esc (Texto ''''))" by (rule dict_get_chave) simp
    then have "c \<in> fst ` set props" by (rule map_of_chave)
    then have "iguais_fora {c} props (AList.update c (Esc Nulo) props)"
      by (rule iguais_fora_update) simp
    moreover from assms True have "props' = AList.update c (Esc Nulo) props"
      by (simp add: corrigir_campo_def)
    ultimately show ?thesis by simp
  next
    case False
    with assms show ?thesis by (simp add: corrigir_campo_def)
  qed
  show "map_of props' c = campo_corrigido (map_of props c)"
    using assms
    by (auto simp: corrigir_campo_def campo_corrigido_def dict_get_def update_conv'
        split: if_splits option.splits)
qed

lemma corrigir_propriedades_props:
  assumes "corrigir_propriedades (props, st, b) = (props', st', b')"
  shows "iguais_fora {''latitude'', ''longitude''} props props'"
    and "map_of props' ''latitude'' = campo_corrigido (map_of props ''latitude'')"
    and "map_of props' ''longitude'' = campo_corrigido (map_of props ''longitude'')"
proof -
  obtain p1 s1 b1 where 1: "corrigir_campo ''latitude'' (\<lambda>s. s\<lparr>latitude_vazia := latitude_vazia s + 1\<rparr>) (props, st, b) = (p1, s1, b1)"
    by (cases "corrigir_campo ''latitude'' (\<lambda>s. s\<lparr>latitude_vazia := latitude_vazia s + 1\<rparr>) (props, st, b)") auto
  with assms have 2: "corrigir_campo ''longitude'' (\<lambda>s. s\<lparr>longitude_vazia := longitude_vazia s + 1\<rparr>) (p1, s1, b1) = (props', st', b')"
    by (simp add: corrigir_propriedades_def)
  note a = corrigir_campo_props [OF 1] and c = corrigir_campo_props [OF 2]
  from a(1) c(1) show "iguais_fora {''latitude'', ''longitude''} props props'"
    by (simp add: iguais_fora_def)
  from a(2) c(1) show "map_of props' ''latitude'' = campo_corrigido (map_of props ''latitude'')"
    by (simp add: iguais_fora_def)
  from a(1) c(2) show "map_of props' ''longitude'' = campo_corrigido (map_of props ''longitude'')"
    by (simp add: iguais_fora_def)
qed

lemma corrigir_feature_corrigida:
  assumes "corrigir_feature f st = Inr (f', st', b)"
  shows "feature_corrigida f f'"
proof -
  from assms obtain kvs where f: "f = PyDict kvs"
    by (cases f) (auto simp: corrigir_feature_def)
  define kvs1 where "kvs1 = (if geometria_vazia kvs then AList.update ''geometry'' (Esc Nulo) kvs else kvs)"
  define st1 where "st1 = (if geometria_vazia kvs then st\<lparr>coordenadas_vazias := coordenadas_vazias st + 1\<rparr> else st)"
  define b1 where "b1 = geometria_vazia kvs"
  have g1: "iguais_fora {''geometry''} kvs kvs1"
  proof (cases "geometria_vazia kvs")
    case True
    then have "coordenadas_sao_par_vazio kvs" by (simp add: geometria_vazia_iff)
    then have "''geometry'' \<in> fst ` set kvs"
      by (auto simp: coordenadas_sao_par_vazio_def dest: map_of_chave)
    then show ?thesis by (simp add: kvs1_def True iguais_fora_update)
  next
    case False
    then show ?thesis by (simp add: kvs1_def)
  qed
  have g2: "map_of kvs1 ''geometry''
      = (if coordenadas_sao_par_vazio kvs then Some (Esc Nulo) else map_of kvs ''geometry'')"
    by (simp add: kvs1_def geometria_vazia_iff update_conv')
  have p1: "map_of kvs1 ''properties'' = map_of kvs ''properties''"
    using g1 by (simp add: iguais_fora_def)
  have step: "corrigir_feature f st =
     (if verdadeiro (dict_get kvs1 ''properties'' (Esc Nulo))
      then (case dict_get kvs1 ''properties'' (Esc Nulo) of
              PyDict props \<Rightarrow>
                (case corrigir_propriedades (props, st1, b1) of
                   (props2, stats2, corrigido2) \<Rightarrow>
                     Inr (PyDict (AList.update ''properties'' (PyDict props2) kvs1), stats2, corrigido2))
            | _ \<Rightarrow> Inl AttributeError)
      else Inr (PyDict kvs1, st1, b1))"
    unfolding corrigir_feature_def f kvs1_def st1_def b1_def
    by (cases "geometria_vazia kvs") (simp_all split: pyval.splits prod.splits)
  show ?thesis
  proof (cases "verdadeiro (dict_get kvs1 ''properties'' (Esc Nulo))")
    case False
    with assms step have e: "f' = PyDict kvs1" by simp
    from False have "propriedades_corrigidas (map_of kvs ''properties'') (map_of kvs1 ''properties'')"
      by (auto simp: propriedades_corrigidas_def campo_corrigido_def p1 dict_get_def
          split: option.splits pyval.splits)
    moreover from g1 have "iguais_fora {''geometry'', ''properties''} kvs kvs1"
      by (simp add: iguais_fora_def)
    ultimately show ?thesis using g2 by (simp add: feature_corrigida_def f e)
  next
    case True
    with assms step obtain props where pr: "dict_get kvs1 ''properties'' (Esc Nulo) = PyDict props"
      by (cases "dict_get kvs1 ''properties'' (Esc Nulo)") auto
    then have m1: "map_of kvs1 ''properties'' = Some (PyDict props)"
      by (rule dict_get_chave) simp
    obtain props2 st2 b2 where cp: "corrigir_propriedades (props, st1, b1) = (props2, st2, b2)"
      by (cases "corrigir_propriedades (props, st1, b1)") auto
    with assms step True pr have e: "f' = PyDict (AList.update ''properties'' (PyDict props2) kvs1)"
      by simp
    note c = corrigir_propriedades_props [OF cp]
    from m1 have "''properties'' \<in> fst ` set kvs1" by (rule map_of_chave)
    then have "iguais_fora {''geometry'', ''properties''} kvs1 (AList.update ''properties'' (PyDict props2) kvs1)"
      by (rule iguais_fora_update) simp
    with g1 have a: "iguais_fora {''geometry'', ''properties''} kvs (AList.update ''properties'' (PyDict props2) kvs1)"
      by (simp add: iguais_fora_def)
    have b: "map_of (AList.update ''properties'' (PyDict props2) kvs1) ''geometry''
        = (if coordenadas_sao_par_vazio kvs then Some (Esc Nulo) else map_of kvs ''geometry'')"
      using g2 by (simp add: update_conv')
    have d: "propriedades_corrigidas (map_of kvs ''properties'')
        (map_of (AList.update ''properties'' (PyDict props2) kvs1) ''properties'')"
      using c m1 by (simp add: propriedades_corrigidas_def p1 [symmetric] update_conv')
    from a b d show ?thesis by (simp add: feature_corrigida_def f e)
  qed
qed

lemma corrigir_features_corrigidas:
  "corrigir_features fs st n = Inr (fs', st', n') \<Longrightarrow> list_all2 feature_corrigida fs fs'"
proof (induction fs arbitrary: st n fs')
  case Nil
  then show ?case by simp
next
  case (Cons f fs)
  from Cons.prems obtain f1 st1 b1 where a: "corrigir_feature f st = Inr (f1, st1, b1)"
    by (auto split: sum.splits)
  with Cons.prems obtain r1 where b: "corrigir_features fs st1 (if b1 then n + 1 else n) = Inr (r1, st', n')"
    and e: "fs' = f1 # r1"
    by (auto split: sum.splits)
  from Cons.IH [OF b] corrigir_feature_corrigida [OF a] e show ?case by simp
qed

lemma corrigir_exemplo:
  "corrigir_geojson documento_bruto = Inr (documento_limpo, estatisticas_exemplo, 1)"
proof -
  have a: "corrigir_feature feature_bruta (estatisticas_iniciais k) =
      Inr (feature_limpa, \<lparr> coordenadas_vazias = 1, latitude_vazia = 1, longitude_vazia = 0,
             total_features = k \<rparr>, True)" for k
    by (simp add: corrigir_feature_def feature_bruta_def feature_limpa_def geometria_vazia_def
        dict_get_def par_vazio_def corrigir_propriedades_def corrigir_campo_def
        estatisticas_iniciais_def)
  have b: "corrigir_feature registro1 st = Inr (registro1, st, False)" for st
    by (simp add: corrigir_feature_def registro1_def ocorrencia_def ponto_def geometria_vazia_def
        dict_get_def par_vazio_def corrigir_propriedades_def corrigir_campo_def)
  show ?thesis
    by (simp add: corrigir_geojson_def documento_bruto_def documento_limpo_def dict_get_def a b
        estatisticas_exemplo_def)
qed

text \<open>
  Claim C10. Whenever the fixer writes a document, the document has the keys of the input
  in the same order and the same values outside \<open>features\<close>, as many features as
  the input, and each feature is the input feature with the same keys in the same order
  and the same values but for three things: its geometry is \<open>null\<close> exactly when the
  geometry is an object whose \<open>coordinates\<close> are \<open>["", ""]\<close>, and the
  \<open>latitude\<close> and the \<open>longitude\<close> of its properties are \<open>null\<close> exactly when
  they were the empty string; the other properties keep their keys, order and values.
\<close>

theorem corrigir_geojson_so_tres_campos:
  assumes "corrigir_geojson data = Inr (data', stats, n)"
  shows "length (features_de data') = length (features_de data)
    \<and> list_all2 feature_corrigida (features_de data) (features_de data')
    \<and> (\<exists>kvs kvs'. data = PyDict kvs \<and> data' = PyDict kvs'
          \<and> iguais_fora {''features''} kvs kvs'
          \<and> ((\<forall>fs. map_of kvs ''features'' \<noteq> Some (PyList fs)) \<longrightarrow> kvs' = kvs))"
proof -
  from assms obtain kvs where d: "data = PyDict kvs"
    by (cases data) (auto simp: corrigir_geojson_def)
  define features where "features = dict_get kvs ''features'' (PyList [])"
  from assms d obtain total where t: "py_len features = Inr total"
    by (auto simp: corrigir_geojson_def features_def [symmetric] split: sum.splits)
  show ?thesis
  proof (cases "\<exists>fs. features = PyList fs")
    case False
    with assms d t have e: "data' = data"
      by (cases features) (auto simp: corrigir_geojson_def features_def [symmetric] split: if_splits)
    from False have "features_de data = []"
      by (cases features) (auto simp: features_de_def d features_def [symmetric])
    with e d show ?thesis by simp
  next
    case True
    then obtain fs where fs: "features = PyList fs" by blast
    with assms d t obtain fs' where c: "corrigir_features fs (estatisticas_iniciais total) 0 = Inr (fs', stats, n)"
      and e: "data' = (if ''features'' \<in> fst ` set kvs
                       then PyDict (AList.update ''features'' (PyList fs') kvs) else data)"
      by (auto simp: corrigir_geojson_def features_def [symmetric] split: sum.splits)
    note l = corrigir_features_corrigidas [OF c]
    have fd: "features_de data = fs"
      by (simp add: features_de_def d features_def [symmetric] fs)
    show ?thesis
    proof (cases "''features'' \<in> fst ` set kvs")
      case True
      with e have e': "data' = PyDict (AList.update ''features'' (PyList fs') kvs)" by simp
      have fd': "features_de data' = fs'"
        by (simp add: features_de_def e' dict_get_def update_conv')
      from True have "iguais_fora {''features''} kvs (AList.update ''features'' (PyList fs') kvs)"
        by (rule iguais_fora_update) simp
      moreover from fs True have "map_of kvs ''features'' = Some (PyList fs)"
        by (auto simp: features_def dict_get_def split: option.splits
            simp flip: dom_map_of_conv_image_fst)
      ultimately show ?thesis using l fd fd' d e' list_all2_lengthD [OF l] by auto
    next
      case False
      with e have e': "data' = data" by simp
      from False have "map_of kvs ''features'' = None"
        by (simp add: map_of_eq_None_iff)
      with fs have "fs = []" by (simp add: features_def dict_get_def)
      with c have "fs' = []" by simp
      with \<open>fs = []\<close> fd e' d \<open>map_of kvs ''features'' = None\<close> show ?thesis by simp
    qed
  qed
qed

theorem corrigir_geojson_so_tres_campos_witness:
  "corrigir_geojson documento_bruto = Inr (documento_limpo, estatisticas_exemplo, 1)
   \<and> length (features_de documento_limpo) = length (features_de documento_bruto)
   \<and> list_all2 feature_corrigida (features_de documento_bruto) (features_de documento_limpo)
   \<and> features_de documento_bruto = [feature_bruta, registro1]
   \<and> features_de documento_limpo = [feature_limpa, registro1]"
proof -
  note t = corrigir_geojson_so_tres_campos [OF corrigir_exemplo]
  from t have a: "length (features_de documento_limpo) = length (features_de documento_bruto)"
    by (rule conjunct1)
  from t have b: "list_all2 feature_corrigida (features_de documento_bruto) (features_de documento_limpo)"
    by (elim conjE)
  have c: "features_de documento_bruto = [feature_bruta, registro1]"
    "features_de documento_limpo = [feature_limpa, registro1]"
    by (simp_all add: features_de_def documento_bruto_def documento_limpo_def dict_get_def)
  from corrigir_exemplo a b c show ?thesis by (intro conjI)
qed

section \<open>Properties of the occurrence reader\<close>

lemma valida_exemplos:
  "feature_valida leitura_exemplo registro1 = Inr True"
  "feature_valida G feature_sem_geometria = Inr False"
  "feature_valida G feature_bruta = Inr False"
  "feature_valida G feature_sem_coordenadas = Inr True"
  by (simp_all add: feature_valida_def registro1_def ocorrencia_def ponto_def dict_get_def
      feature_sem_geometria_def feature_bruta_def feature_sem_coordenadas_def par_vazio_def
      coordenadas_em_branco_def coordenadas_convertem_def tentar_converter_def
      leitura_exemplo_def)

lemma valida_enorme:
  "feature_valida leitura_exemplo feature_coordenada_enorme = Inl OverflowError"
  by (simp add: feature_valida_def feature_coordenada_enorme_def dict_get_def
      coordenadas_em_branco_def coordenadas_convertem_def tentar_converter_def
      leitura_exemplo_def)

lemma from_features_exemplo:
  "from_features leitura_exemplo [registro1] = Inr tabela_leitor"
  "from_features leitura_exemplo [feature_sem_coordenadas] = Inl KeyError"
  by (simp_all add: leitura_exemplo_def geometria_sem_coordenadas_def registro1_def
      ocorrencia_def ponto_def dict_get_def feature_sem_coordenadas_def propriedades_de_def
      linha_de_feature_def tabela_leitor_def)

lemma ler_exemplo:
  "ler_ocorrencias leitura_exemplo documento_leitor = Inr (tabela_leitor, 2)"
  by (simp add: ler_ocorrencias_def documento_leitor_def dict_get_def valida_exemplos
      from_features_exemplo)

lemma ler_sem_coordenadas:
  "ler_ocorrencias G documento_sem_coordenadas =
     (case from_features G [feature_sem_coordenadas] of
        Inl e \<Rightarrow> Inl e
      | Inr gdf \<Rightarrow> Inr (gdf, 1))"
  by (cases "from_features G [feature_sem_coordenadas]")
     (simp_all add: ler_ocorrencias_def documento_sem_coordenadas_def dict_get_def valida_exemplos)

text \<open>
  Claim C8. The reader rejects and counts the feature with a null geometry and the
  feature with empty coordinates, and hands the others to geopandas. A feature whose
  geometry has no \<open>coordinates\<close> member is not rejected: the filter keeps it, whatever
  \<open>float\<close> does, so the reader hands it to \<open>from_features\<close> and raises what
  \<open>from_features\<close> raises on it, a \<open>KeyError\<close> with geopandas. A feature whose
  coordinate is an integer beyond the range of a float is not rejected either: the
  \<open>OverflowError\<close> of \<open>float\<close> is not caught by the filter and leaves the reader.
  Neither feature has two present and parseable coordinates.
\<close>

theorem leitor_levanta_sem_coordenadas:
  "ler_ocorrencias leitura_exemplo documento_leitor = Inr (tabela_leitor, 2)
   \<and> feature_valida G feature_sem_geometria = Inr False
   \<and> feature_valida G feature_sem_coordenadas = Inr True
   \<and> filtrar_features G [feature_sem_geometria, feature_sem_coordenadas]
        = Inr ([feature_sem_coordenadas], 1)
   \<and> ler_ocorrencias G documento_sem_coordenadas =
        (case from_features G [feature_sem_coordenadas] of
           Inl e \<Rightarrow> Inl e
         | Inr gdf \<Rightarrow> Inr (gdf, 1))
   \<and> ler_ocorrencias leitura_exemplo documento_sem_coordenadas = Inl KeyError
   \<and> \<not> geometria_utilizavel_spec G feature_sem_coordenadas
   \<and> ler_ocorrencias leitura_exemplo documento_coordenada_enorme = Inl OverflowError
   \<and> \<not> geometria_utilizavel_spec leitura_exemplo feature_coordenada_enorme"
proof -
  have a: "filtrar_features G [feature_sem_geometria, feature_sem_coordenadas]
        = Inr ([feature_sem_coordenadas], 1)"
    by (simp add: valida_exemplos)
  have b: "ler_ocorrencias leitura_exemplo documento_sem_coordenadas = Inl KeyError"
    by (simp add: ler_sem_coordenadas from_features_exemplo)
  have c: "\<not> geometria_utilizavel_spec G feature_sem_coordenadas"
    by (simp add: geometria_utilizavel_spec_def feature_sem_coordenadas_def)
  have d: "ler_ocorrencias leitura_exemplo documento_coordenada_enorme = Inl OverflowError"
    by (simp add: ler_ocorrencias_def documento_coordenada_enorme_def dict_get_def valida_enorme)
  have e: "\<not> geometria_utilizavel_spec leitura_exemplo feature_coordenada_enorme"
    by (simp add: geometria_utilizavel_spec_def feature_coordenada_enorme_def numerico_def
        leitura_exemplo_def)
  from ler_exemplo valida_exemplos(2) valida_exemplos(4) a ler_sem_coordenadas b c d e
  show ?thesis by (intro conjI)
qed

section \<open>Properties of the aggregator\<close>

lemma valor_em_incrementar:
  "valor_em (incrementar k d) j = (if j = k then valor_em d k + 1 else valor_em d j)"
  by (simp add: valor_em_def incrementar_def)

lemma valor_em_vazio [simp]: "valor_em Map.empty k = 0"
  by (simp add: valor_em_def)

lemma em_chave_apply:
  "em_chave k f d j = (if j = k then Some (f (case d k of None \<Rightarrow> Map.empty | Some m \<Rightarrow> m)) else d j)"
  by (simp add: em_chave_def)

lemma chave_Inr: "chave v = Inr b \<longleftrightarrow> v = Esc b"
  by (cases v) auto

lemma chave_escalar: "escalar_em v \<Longrightarrow> \<exists>b. v = Esc b"
  by (cases v) auto

lemma linhas_do_bairro_Cons:
  "linhas_do_bairro n (row # rows)
     = (if bairro_da_linha row = Some n then 1 else 0) + linhas_do_bairro n rows"
  by (simp add: linhas_do_bairro_def)

lemma agrupar_por_bairro_conta:
  "agrupar_por_bairro rows d = Inr d' \<Longrightarrow>
     valor_em d' n = valor_em d n + linhas_do_bairro n rows"
proof (induction rows arbitrary: d)
  case Nil
  then show ?case by (simp add: linhas_do_bairro_def)
next
  case (Cons row rows)
  from Cons.prems obtain b where b: "celula row ''bairro'' = Esc b"
    by (cases "celula row ''bairro''") auto
  with Cons.prems
  have r: "agrupar_por_bairro rows (if isna_escalar b then d else incrementar b d) = Inr d'"
    by simp
  have l: "bairro_da_linha row = (if isna_escalar b then None else Some b)"
    by (simp add: bairro_da_linha_def b)
  from Cons.IH [OF r] show ?case
    by (auto simp: linhas_do_bairro_Cons l valor_em_incrementar)
qed

lemma agrupar_por_bairro_escalares:
  "list_all (\<lambda>row. escalar_em (celula row ''bairro'')) rows \<Longrightarrow>
     \<exists>d'. agrupar_por_bairro rows d = Inr d'"
proof (induction rows arbitrary: d)
  case Nil
  then show ?case by simp
next
  case (Cons row rows)
  from Cons.prems obtain b where b: "celula row ''bairro'' = Esc b"
    using chave_escalar by auto
  from Cons.prems have "list_all (\<lambda>row. escalar_em (celula row ''bairro'')) rows" by simp
  from Cons.IH [OF this] b show ?case by simp
qed

lemma agrupar_por_bairro_nao_escalar:
  "agrupar_por_bairro rows d = Inr d' \<Longrightarrow>
     list_all (\<lambda>row. escalar_em (celula row ''bairro'')) rows"
proof (induction rows arbitrary: d)
  case Nil
  then show ?case by simp
next
  case (Cons row rows)
  from Cons.prems obtain b where b: "celula row ''bairro'' = Esc b"
    by (cases "celula row ''bairro''") auto
  with Cons.prems Cons.IH show ?case by simp
qed

lemma estacao_nao_vazia:
  assumes "determinar_estacao_hemisferio_sul L v = Inr (Some s)"
  shows "s \<noteq> []"
  using determinar_rotulo [OF assms] by (auto simp: estacoes_def)

lemma estacao_da_linha_rotulo:
  "estacao_da_linha L col row = Some s \<Longrightarrow> s \<in> set estacoes"
  by (auto simp: estacao_da_linha_def split: sum.splits dest: determinar_rotulo)

lemma estacao_lida:
  "\<exists>e. (case cd of None \<Rightarrow> Inr None
            | Some col \<Rightarrow> determinar_estacao_hemisferio_sul L (celula row col)) = Inr e
     \<and> e = (case cd of None \<Rightarrow> None | Some col \<Rightarrow> estacao_da_linha L col row)
     \<and> (estacao_verdadeira e \<longleftrightarrow> e \<noteq> None)"
proof (cases cd)
  case None
  then show ?thesis by (simp add: estacao_verdadeira_def)
next
  case (Some col)
  obtain e where e: "determinar_estacao_hemisferio_sul L (celula row col) = Inr e"
    using determinar_Inr by blast
  have "estacao_verdadeira e \<longleftrightarrow> e \<noteq> None"
    using e estacao_nao_vazia [of L "celula row col"]
    by (cases e) (auto simp: estacao_verdadeira_def)
  with Some e show ?thesis by (simp add: estacao_da_linha_def)
qed

lemma contar_tipo_resultado:
  assumes "contar_tipo L td row (Esc b) e c = Inr c1"
  shows "c1 = (case (if td then tipo_da_linha row else None) of
                 None \<Rightarrow> c
               | Some t \<Rightarrow>
                  (let c0 = c\<lparr>contagem_por_tipo := em_chave b (incrementar t) (contagem_por_tipo c)\<rparr>
                   in if estacao_verdadeira e
                      then c0\<lparr>contagem_por_tipo_estacao :=
                                em_chave b (em_chave t (incrementar (the e)))
                                  (contagem_por_tipo_estacao c0)\<rparr>
                      else c0))"
proof (cases td)
  case False
  with assms show ?thesis by (simp add: contar_tipo_def)
next
  case True
  show ?thesis
  proof (cases "celula row ''tipo''")
    case (Esc t)
    with assms True show ?thesis
      by (cases "isna_escalar t") (auto simp: contar_tipo_def tipo_da_linha_def Let_def)
  next
    case (PyList xs)
    with assms True show ?thesis
      by (auto simp: contar_tipo_def tipo_da_linha_def Let_def split: sum.splits bool.splits)
  next
    case (PyDict kvs)
    with assms True show ?thesis
      by (auto simp: contar_tipo_def tipo_da_linha_def Let_def)
  qed
qed

lemma contar_tipo_sem_chave:
  assumes "chave v = Inl x" and "contar_tipo L td row v e c = Inr c1"
  shows "c1 = c"
  using assms
  by (auto simp: contar_tipo_def Let_def split: if_splits sum.splits bool.splits)

lemma contar_linha_resultado:
  assumes "contar_linha L td cd row c = Inr c'"
  shows "c' = contribuicao L td cd row c"
proof -
  from estacao_lida [where cd = cd and L = L and row = row] obtain e where
    det: "(case cd of None \<Rightarrow> Inr None
            | Some col \<Rightarrow> determinar_estacao_hemisferio_sul L (celula row col)) = Inr e"
    and e: "e = (case cd of None \<Rightarrow> None | Some col \<Rightarrow> estacao_da_linha L col row)"
    and ev: "estacao_verdadeira e \<longleftrightarrow> e \<noteq> None"
    by (elim exE conjE)
  show ?thesis
  proof (cases "celula row ''bairro''")
    case (Esc b)
    show ?thesis
    proof (cases "isna_escalar b")
      case True
      with assms Esc show ?thesis
        by (simp add: contar_linha_def contribuicao_def bairro_da_linha_def)
    next
      case False
      from assms Esc False det obtain c1 where
        ct: "contar_tipo L td row (Esc b) e c = Inr c1"
        and c': "c' = (if estacao_verdadeira e
                       then c1\<lparr>contagem_por_estacao :=
                                 em_chave b (incrementar (the e)) (contagem_por_estacao c1)\<rparr>
                       else c1)"
        by (auto simp: contar_linha_def Let_def split: sum.splits if_splits)
      note r = contar_tipo_resultado [OF ct]
      have bl: "bairro_da_linha row = Some b"
        using Esc False by (simp add: bairro_da_linha_def)
      show ?thesis
      proof (cases e)
        case None
        with ev have "\<not> estacao_verdadeira e" by simp
        with r c' None e [symmetric] bl show ?thesis
          by (simp add: contribuicao_def acrescentar_def Let_def split: option.splits)
      next
        case (Some s)
        with ev have "estacao_verdadeira e" by simp
        with r c' Some e [symmetric] bl show ?thesis
          by (simp add: contribuicao_def acrescentar_def Let_def split: option.splits)
      qed
    qed
  next
    case (PyList xs)
    then have k: "chave (celula row ''bairro'') = Inl TypeError" by simp
    have bl: "bairro_da_linha row = None" using PyList by (simp add: bairro_da_linha_def)
    from assms det k contar_tipo_sem_chave [OF k, of L td row e c] have "c' = c"
      by (auto simp: contar_linha_def Let_def split: sum.splits bool.splits if_splits)
    with bl show ?thesis by (simp add: contribuicao_def)
  next
    case (PyDict kvs)
    then have k: "chave (celula row ''bairro'') = Inl TypeError" by simp
    have bl: "bairro_da_linha row = None" using PyDict by (simp add: bairro_da_linha_def)
    from assms det k contar_tipo_sem_chave [OF k, of L td row e c] have "c' = c"
      by (auto simp: contar_linha_def Let_def split: sum.splits bool.splits if_splits)
    with bl show ?thesis by (simp add: contribuicao_def)
  qed
qed

lemma contar_linhas_resultado:
  "contar_linhas L td cd rows c = Inr c' \<Longrightarrow>
     c' = foldl (\<lambda>c row. contribuicao L td cd row c) c rows"
proof (induction rows arbitrary: c)
  case Nil
  then show ?case by simp
next
  case (Cons row rows)
  from Cons.prems obtain c1 where a: "contar_linha L td cd row c = Inr c1"
    and b: "contar_linhas L td cd rows c1 = Inr c'"
    by (auto split: sum.splits)
  from Cons.IH [OF b] contar_linha_resultado [OF a] show ?case by simp
qed

lemma contar_linha_escalar:
  assumes "escalar_em (celula row ''bairro'')" and "escalar_em (celula row ''tipo'')"
  shows "\<exists>c'. contar_linha L td cd row c = Inr c'"
proof -
  from assms obtain b t where b: "celula row ''bairro'' = Esc b" and t: "celula row ''tipo'' = Esc t"
    using chave_escalar by blast
  from estacao_lida [where cd = cd and L = L and row = row] obtain e where
    det: "(case cd of None \<Rightarrow> Inr None
            | Some col \<Rightarrow> determinar_estacao_hemisferio_sul L (celula row col)) = Inr e"
    by (elim exE conjE)
  have "\<exists>c1. contar_tipo L td row (Esc b) e c = Inr c1"
    by (cases td; cases "isna_escalar t"; cases "estacao_verdadeira e")
       (simp_all add: contar_tipo_def t Let_def)
  then obtain c1 where "contar_tipo L td row (Esc b) e c = Inr c1" ..
  with b det show ?thesis
    by (cases "isna_escalar b"; cases "estacao_verdadeira e")
       (simp_all add: contar_linha_def Let_def)
qed

lemma contar_linhas_escalares:
  "list_all (\<lambda>row. escalar_em (celula row ''bairro'') \<and> escalar_em (celula row ''tipo'')) rows \<Longrightarrow>
     \<exists>c'. contar_linhas L td cd rows c = Inr c'"
proof (induction rows arbitrary: c)
  case Nil
  then show ?case by simp
next
  case (Cons row rows)
  from Cons.prems have "escalar_em (celula row ''bairro'')" "escalar_em (celula row ''tipo'')"
    by simp_all
  from contar_linha_escalar [OF this, of L td cd c]
  obtain c1 where c1: "contar_linha L td cd row c = Inr c1" ..
  from Cons.prems
  have "list_all (\<lambda>row. escalar_em (celula row ''bairro'') \<and> escalar_em (celula row ''tipo'')) rows"
    by simp
  from Cons.IH [OF this, of c1] c1 show ?case by simp
qed

lemma por_tipo_de_alt:
  "por_tipo_de c n k
     = valor_em (case contagem_por_tipo c n of None \<Rightarrow> Map.empty | Some m \<Rightarrow> m) k"
  by (simp add: por_tipo_de_def split: option.splits)

lemma por_estacao_de_alt:
  "por_estacao_de c n s
     = valor_em (case contagem_por_estacao c n of None \<Rightarrow> Map.empty | Some m \<Rightarrow> m) s"
  by (simp add: por_estacao_de_def split: option.splits)

lemma por_tipo_estacao_de_alt:
  "por_tipo_estacao_de c n k s
     = valor_em (case (case contagem_por_tipo_estacao c n of None \<Rightarrow> Map.empty | Some m \<Rightarrow> m) k of
                   None \<Rightarrow> Map.empty | Some x \<Rightarrow> x) s"
  by (simp add: por_tipo_estacao_de_def split: option.splits)

lemma acrescentar_tipo:
  "por_tipo_de (acrescentar b t e c) n k
     = por_tipo_de c n k + (if n = b \<and> t = Some k then 1 else 0)"
  by (cases t; cases e)
     (simp_all add: acrescentar_def Let_def por_tipo_de_alt em_chave_apply valor_em_incrementar)

lemma acrescentar_estacao:
  "por_estacao_de (acrescentar b t e c) n s
     = por_estacao_de c n s + (if n = b \<and> e = Some s then 1 else 0)"
  by (cases t; cases e)
     (simp_all add: acrescentar_def Let_def por_estacao_de_alt em_chave_apply valor_em_incrementar)

lemma acrescentar_tipo_estacao:
  "por_tipo_estacao_de (acrescentar b t e c) n k s
     = por_tipo_estacao_de c n k s + (if n = b \<and> t = Some k \<and> e = Some s then 1 else 0)"
  by (cases t; cases e)
     (simp_all add: acrescentar_def Let_def por_tipo_estacao_de_alt em_chave_apply
        valor_em_incrementar)

lemma acrescentar_mantem:
  "contagem_total (acrescentar b t e c) = contagem_total c"
  "avisos (acrescentar b t e c) = avisos c"
  by (cases t; cases e; simp add: acrescentar_def Let_def)+

lemma acrescentar_sem_tipo:
  "contagem_por_tipo (acrescentar b None e c) = contagem_por_tipo c"
  "contagem_por_tipo_estacao (acrescentar b None e c) = contagem_por_tipo_estacao c"
  by (cases e; simp add: acrescentar_def Let_def)+

lemma acrescentar_sem_estacao:
  "contagem_por_estacao (acrescentar b t None c) = contagem_por_estacao c"
  "contagem_por_tipo_estacao (acrescentar b t None c) = contagem_por_tipo_estacao c"
  by (cases t; simp add: acrescentar_def Let_def)+

lemma dom_incrementar: "dom (incrementar k d) = insert k (dom d)"
  by (auto simp: incrementar_def)

lemma acrescentar_rotulos:
  assumes "rotulos_validos c" and "\<forall>s. e = Some s \<longrightarrow> s \<in> set estacoes"
  shows "rotulos_validos (acrescentar b t e c)"
proof (cases e)
  case None
  with assms(1) show ?thesis
    by (simp add: rotulos_validos_def acrescentar_sem_estacao)
next
  case (Some s)
  with assms(2) have s: "s \<in> set estacoes" by simp
  have "contagem_por_estacao (acrescentar b t e c)
      = em_chave b (incrementar s) (contagem_por_estacao c)"
    using Some by (cases t) (simp_all add: acrescentar_def Let_def)
  with assms(1) s show ?thesis
    by (auto simp: rotulos_validos_def em_chave_apply dom_incrementar
        split: option.splits if_splits)
qed

lemma contribuicao_tipo:
  "por_tipo_de (contribuicao L td cd row c) n k
     = por_tipo_de c n k
       + (if td \<and> bairro_da_linha row = Some n \<and> tipo_da_linha row = Some k then 1 else 0)"
  by (cases "bairro_da_linha row") (auto simp: contribuicao_def acrescentar_tipo)

lemma contribuicao_estacao:
  "por_estacao_de (contribuicao L td cd row c) n s
     = por_estacao_de c n s
       + (case cd of
            None \<Rightarrow> 0
          | Some col \<Rightarrow>
              if bairro_da_linha row = Some n \<and> estacao_da_linha L col row = Some s then 1 else 0)"
  by (cases "bairro_da_linha row"; cases cd) (auto simp: contribuicao_def acrescentar_estacao)

lemma contribuicao_tipo_estacao:
  "por_tipo_estacao_de (contribuicao L td cd row c) n k s
     = por_tipo_estacao_de c n k s
       + (case cd of
            None \<Rightarrow> 0
          | Some col \<Rightarrow>
              if td \<and> bairro_da_linha row = Some n \<and> tipo_da_linha row = Some k
                 \<and> estacao_da_linha L col row = Some s then 1 else 0)"
  by (cases "bairro_da_linha row"; cases cd) (auto simp: contribuicao_def acrescentar_tipo_estacao)

lemma contribuicao_mantem:
  "contagem_total (contribuicao L td cd row c) = contagem_total c"
  "avisos (contribuicao L td cd row c) = avisos c"
  by (cases "bairro_da_linha row"; simp add: contribuicao_def acrescentar_mantem)+

lemma contribuicao_sem_tipo:
  "contagem_por_tipo (contribuicao L False cd row c) = contagem_por_tipo c"
  "contagem_por_tipo_estacao (contribuicao L False cd row c) = contagem_por_tipo_estacao c"
  by (cases "bairro_da_linha row"; simp add: contribuicao_def acrescentar_sem_tipo)+

lemma contribuicao_sem_data:
  "contagem_por_estacao (contribuicao L td None row c) = contagem_por_estacao c"
  "contagem_por_tipo_estacao (contribuicao L td None row c) = contagem_por_tipo_estacao c"
  by (cases "bairro_da_linha row"; simp add: contribuicao_def acrescentar_sem_estacao)+

lemma contribuicao_rotulos:
  assumes "rotulos_validos c"
  shows "rotulos_validos (contribuicao L td cd row c)"
proof (cases "bairro_da_linha row")
  case None
  with assms show ?thesis by (simp add: contribuicao_def)
next
  case (Some b)
  have "\<forall>s. (case cd of None \<Rightarrow> None | Some col \<Rightarrow> estacao_da_linha L col row) = Some s
      \<longrightarrow> s \<in> set estacoes"
    by (cases cd) (auto dest: estacao_da_linha_rotulo)
  from acrescentar_rotulos [OF assms this] Some show ?thesis
    by (simp add: contribuicao_def)
qed

lemma linhas_do_tipo_Cons:
  "linhas_do_tipo n k (row # rows)
     = (if bairro_da_linha row = Some n \<and> tipo_da_linha row = Some k then 1 else 0)
       + linhas_do_tipo n k rows"
  by (simp add: linhas_do_tipo_def)

lemma linhas_da_estacao_Cons:
  "linhas_da_estacao L col n s (row # rows)
     = (if bairro_da_linha row = Some n \<and> estacao_da_linha L col row = Some s then 1 else 0)
       + linhas_da_estacao L col n s rows"
  by (simp add: linhas_da_estacao_def)

lemma linhas_do_tipo_estacao_Cons:
  "linhas_do_tipo_estacao L col n k s (row # rows)
     = (if bairro_da_linha row = Some n \<and> tipo_da_linha row = Some k
           \<and> estacao_da_linha L col row = Some s then 1 else 0)
       + linhas_do_tipo_estacao L col n k s rows"
  by (simp add: linhas_do_tipo_estacao_def)

lemma dobra_tipo:
  "por_tipo_de (foldl (\<lambda>c row. contribuicao L td cd row c) c rows) n k
     = por_tipo_de c n k + (if td then linhas_do_tipo n k rows else 0)"
proof (induction rows arbitrary: c)
  case Nil
  then show ?case by (simp add: linhas_do_tipo_def)
next
  case (Cons row rows)
  show ?case
    by (simp add: Cons.IH contribuicao_tipo linhas_do_tipo_Cons)
qed

lemma dobra_estacao:
  "por_estacao_de (foldl (\<lambda>c row. contribuicao L td cd row c) c rows) n s
     = por_estacao_de c n s
       + (case cd of None \<Rightarrow> 0 | Some col \<Rightarrow> linhas_da_estacao L col n s rows)"
proof (induction rows arbitrary: c)
  case Nil
  then show ?case by (simp add: linhas_da_estacao_def split: option.splits)
next
  case (Cons row rows)
  show ?case
    using Cons.IH
    by (cases cd) (simp_all add: contribuicao_estacao linhas_da_estacao_Cons)
qed

lemma dobra_tipo_estacao:
  "por_tipo_estacao_de (foldl (\<lambda>c row. contribuicao L td cd row c) c rows) n k s
     = por_tipo_estacao_de c n k s
       + (case cd of
            None \<Rightarrow> 0
          | Some col \<Rightarrow> if td then linhas_do_tipo_estacao L col n k s rows else 0)"
proof (induction rows arbitrary: c)
  case Nil
  then show ?case by (simp add: linhas_do_tipo_estacao_def split: option.splits)
next
  case (Cons row rows)
  show ?case
    using Cons.IH
    by (cases cd) (simp_all add: contribuicao_tipo_estacao linhas_do_tipo_estacao_Cons)
qed

lemma dobra_mantem:
  "contagem_total (foldl (\<lambda>c row. contribuicao L td cd row c) c rows) = contagem_total c"
  "avisos (foldl (\<lambda>c row. contribuicao L td cd row c) c rows) = avisos c"
  by (induction rows arbitrary: c) (simp_all add: contribuicao_mantem)

lemma dobra_sem_tipo:
  "contagem_por_tipo (foldl (\<lambda>c row. contribuicao L False cd row c) c rows) = contagem_por_tipo c"
  "contagem_por_tipo_estacao (foldl (\<lambda>c row. contribuicao L False cd row c) c rows)
     = contagem_por_tipo_estacao c"
  by (induction rows arbitrary: c) (simp_all add: contribuicao_sem_tipo)

lemma dobra_sem_data:
  "contagem_por_estacao (foldl (\<lambda>c row. contribuicao L td None row c) c rows) = contagem_por_estacao c"
  "contagem_por_tipo_estacao (foldl (\<lambda>c row. contribuicao L td None row c) c rows)
     = contagem_por_tipo_estacao c"
  by (induction rows arbitrary: c) (simp_all add: contribuicao_sem_data)

lemma dobra_rotulos:
  "rotulos_validos c \<Longrightarrow> rotulos_validos (foldl (\<lambda>c row. contribuicao L td cd row c) c rows)"
  by (induction rows arbitrary: c) (simp_all add: contribuicao_rotulos)

lemma soma_estacoes_linhas:
  "(\<Sum>s\<leftarrow>estacoes. linhas_da_estacao L col n s rows) \<le> linhas_do_bairro n rows"
proof (induction rows)
  case Nil
  then show ?case by (simp add: linhas_da_estacao_def linhas_do_bairro_def estacoes_def)
next
  case (Cons row rows)
  have "(\<Sum>s\<leftarrow>estacoes. linhas_da_estacao L col n s (row # rows))
      = (\<Sum>s\<leftarrow>estacoes. (if bairro_da_linha row = Some n \<and> estacao_da_linha L col row = Some s
                              then 1 else 0))
        + (\<Sum>s\<leftarrow>estacoes. linhas_da_estacao L col n s rows)"
    by (simp add: linhas_da_estacao_Cons estacoes_def)
  moreover have "(\<Sum>s\<leftarrow>estacoes. (if bairro_da_linha row = Some n \<and> estacao_da_linha L col row = Some s
                              then 1 else 0))
      \<le> (if bairro_da_linha row = Some n then 1 else (0::nat))"
    by (cases "estacao_da_linha L col row") (auto simp: estacoes_def)
  ultimately show ?case using Cons.IH by (simp add: linhas_do_bairro_Cons)
qed

lemma contribuicao_nada [simp]: "contribuicao L False None row c = c"
  by (cases "bairro_da_linha row") (simp_all add: contribuicao_def acrescentar_def)

lemma dobra_constante [simp]: "foldl (\<lambda>c row. c) c rows = c"
  by (induction rows) simp_all

lemma contar_dobra:
  assumes "contar_ocorrencias_por_bairro L gdf = Inr c"
  shows "''bairro'' \<in> set (colunas gdf)
    \<and> agrupar_por_bairro (linhas gdf) Map.empty = Inr (contagem_total c)
    \<and> c = foldl (\<lambda>c row. contribuicao L (''tipo'' \<in> set (colunas gdf))
                     (find (\<lambda>col. col \<in> set (colunas gdf)) colunas_data) row c)
            (contagens_iniciais gdf (contagem_total c)) (linhas gdf)"
proof -
  let ?t = "''tipo'' \<in> set (colunas gdf)"
  let ?cd = "find (\<lambda>col. col \<in> set (colunas gdf)) colunas_data"
  from assms have b: "''bairro'' \<in> set (colunas gdf)"
    by (auto simp: contar_ocorrencias_por_bairro_def split: if_splits)
  with assms obtain totais where t: "agrupar_por_bairro (linhas gdf) Map.empty = Inr totais"
    by (auto simp: contar_ocorrencias_por_bairro_def Let_def split: sum.splits)
  let ?c0 = "contagens_iniciais gdf totais"
  have d: "c = foldl (\<lambda>c row. contribuicao L ?t ?cd row c) ?c0 (linhas gdf)"
  proof (cases "?t \<or> ?cd \<noteq> None")
    case True
    with assms b t have "contar_linhas L ?t ?cd (linhas gdf) ?c0 = Inr c"
      by (auto simp: contar_ocorrencias_por_bairro_def Let_def contagens_iniciais_def)
    then show ?thesis by (rule contar_linhas_resultado)
  next
    case False
    with assms b t have "c = ?c0"
      by (auto simp: contar_ocorrencias_por_bairro_def Let_def contagens_iniciais_def)
    with False show ?thesis by simp
  qed
  have "contagem_total c = totais"
    by (subst d) (simp add: dobra_mantem contagens_iniciais_def)
  with b t d show ?thesis by simp
qed

lemma contar_escalares:
  assumes "''bairro'' \<in> set (colunas gdf)" and "celulas_escalares gdf"
  shows "\<exists>c. contar_ocorrencias_por_bairro L gdf = Inr c"
proof -
  from assms(2) have a: "list_all (\<lambda>row. escalar_em (celula row ''bairro'')) (linhas gdf)"
    and r: "list_all (\<lambda>row. escalar_em (celula row ''bairro'') \<and> escalar_em (celula row ''tipo''))
              (linhas gdf)"
    by (simp_all add: celulas_escalares_def list_all_iff)
  from agrupar_por_bairro_escalares [OF a, of Map.empty]
  obtain totais where t: "agrupar_por_bairro (linhas gdf) Map.empty = Inr totais" ..
  note l = contar_linhas_escalares [OF r]
  show ?thesis
    using assms(1) t l
    by (simp add: contar_ocorrencias_por_bairro_def Let_def)
qed

lemma total_de_linhas:
  assumes "contar_ocorrencias_por_bairro L gdf = Inr c"
  shows "total_de c n = linhas_do_bairro n (linhas gdf)"
proof -
  from contar_dobra [OF assms]
  have "agrupar_por_bairro (linhas gdf) Map.empty = Inr (contagem_total c)" by (elim conjE)
  from agrupar_por_bairro_conta [OF this, of n]
  show ?thesis by (simp add: total_de_def valor_em_def)
qed

lemma iniciais_zero:
  "por_tipo_de (contagens_iniciais gdf t) n k = 0"
  "por_estacao_de (contagens_iniciais gdf t) n s = 0"
  "por_tipo_estacao_de (contagens_iniciais gdf t) n k s = 0"
  "rotulos_validos (contagens_iniciais gdf t)"
  "contagem_por_tipo (contagens_iniciais gdf t) = Map.empty"
  "contagem_por_estacao (contagens_iniciais gdf t) = Map.empty"
  "contagem_por_tipo_estacao (contagens_iniciais gdf t) = Map.empty"
  by (simp_all add: contagens_iniciais_def por_tipo_de_def por_estacao_de_def
      por_tipo_estacao_de_def rotulos_validos_def)

lemma contar_por_estacao:
  assumes "contar_ocorrencias_por_bairro L gdf = Inr c"
  shows "por_estacao_de c n s =
     (case find (\<lambda>col. col \<in> set (colunas gdf)) colunas_data of
        None \<Rightarrow> 0
      | Some col \<Rightarrow> linhas_da_estacao L col n s (linhas gdf))"
proof -
  from contar_dobra [OF assms]
  have d: "c = foldl (\<lambda>c row. contribuicao L (''tipo'' \<in> set (colunas gdf))
                     (find (\<lambda>col. col \<in> set (colunas gdf)) colunas_data) row c)
            (contagens_iniciais gdf (contagem_total c)) (linhas gdf)"
    by (elim conjE)
  show ?thesis
    by (subst d) (simp add: dobra_estacao iniciais_zero)
qed

lemma contar_por_tipo:
  assumes "contar_ocorrencias_por_bairro L gdf = Inr c"
  shows "por_tipo_de c n k =
     (if ''tipo'' \<in> set (colunas gdf) then linhas_do_tipo n k (linhas gdf) else 0)"
proof -
  from contar_dobra [OF assms]
  have d: "c = foldl (\<lambda>c row. contribuicao L (''tipo'' \<in> set (colunas gdf))
                     (find (\<lambda>col. col \<in> set (colunas gdf)) colunas_data) row c)
            (contagens_iniciais gdf (contagem_total c)) (linhas gdf)"
    by (elim conjE)
  show ?thesis
    by (subst d) (simp add: dobra_tipo iniciais_zero)
qed

lemma contar_por_tipo_estacao:
  assumes "contar_ocorrencias_por_bairro L gdf = Inr c"
  shows "por_tipo_estacao_de c n k s =
     (case find (\<lambda>col. col \<in> set (colunas gdf)) colunas_data of
        None \<Rightarrow> 0
      | Some col \<Rightarrow>
          if ''tipo'' \<in> set (colunas gdf)
          then linhas_do_tipo_estacao L col n k s (linhas gdf) else 0)"
proof -
  from contar_dobra [OF assms]
  have d: "c = foldl (\<lambda>c row. contribuicao L (''tipo'' \<in> set (colunas gdf))
                     (find (\<lambda>col. col \<in> set (colunas gdf)) colunas_data) row c)
            (contagens_iniciais gdf (contagem_total c)) (linhas gdf)"
    by (elim conjE)
  show ?thesis
    by (subst d) (simp add: dobra_tipo_estacao iniciais_zero)
qed

lemma contar_avisos:
  assumes "contar_ocorrencias_por_bairro L gdf = Inr c"
  shows "avisos c = (if ''tipo'' \<in> set (colunas gdf) then [] else [SemColunaTipo])
                @ (if find (\<lambda>col. col \<in> set (colunas gdf)) colunas_data \<noteq> None then []
                   else [SemColunaData])"
proof -
  from contar_dobra [OF assms]
  have d: "c = foldl (\<lambda>c row. contribuicao L (''tipo'' \<in> set (colunas gdf))
                     (find (\<lambda>col. col \<in> set (colunas gdf)) colunas_data) row c)
            (contagens_iniciais gdf (contagem_total c)) (linhas gdf)"
    by (elim conjE)
  show ?thesis
    by (subst d) (simp add: dobra_mantem contagens_iniciais_def)
qed

lemma contar_rotulos:
  assumes "contar_ocorrencias_por_bairro L gdf = Inr c"
  shows "rotulos_validos c"
proof -
  from contar_dobra [OF assms]
  have d: "c = foldl (\<lambda>c row. contribuicao L (''tipo'' \<in> set (colunas gdf))
                     (find (\<lambda>col. col \<in> set (colunas gdf)) colunas_data) row c)
            (contagens_iniciais gdf (contagem_total c)) (linhas gdf)"
    by (elim conjE)
  show ?thesis
    by (subst d) (intro dobra_rotulos iniciais_zero)
qed

lemma contar_sem_tipo:
  assumes "contar_ocorrencias_por_bairro L gdf = Inr c" and "''tipo'' \<notin> set (colunas gdf)"
  shows "contagem_por_tipo c = Map.empty" and "contagem_por_tipo_estacao c = Map.empty"
proof -
  from contar_dobra [OF assms(1)] assms(2)
  have d: "c = foldl (\<lambda>c row. contribuicao L False
                     (find (\<lambda>col. col \<in> set (colunas gdf)) colunas_data) row c)
            (contagens_iniciais gdf (contagem_total c)) (linhas gdf)"
    by simp
  show "contagem_por_tipo c = Map.empty"
    by (subst d) (simp add: dobra_sem_tipo iniciais_zero)
  show "contagem_por_tipo_estacao c = Map.empty"
    by (subst d) (simp add: dobra_sem_tipo iniciais_zero)
qed

lemma contar_sem_data:
  assumes "contar_ocorrencias_por_bairro L gdf = Inr c"
    and "find (\<lambda>col. col \<in> set (colunas gdf)) colunas_data = None"
  shows "contagem_por_estacao c = Map.empty" and "contagem_por_tipo_estacao c = Map.empty"
proof -
  from contar_dobra [OF assms(1)] assms(2)
  have d: "c = foldl (\<lambda>c row. contribuicao L (''tipo'' \<in> set (colunas gdf)) None row c)
            (contagens_iniciais gdf (contagem_total c)) (linhas gdf)"
    by simp
  show "contagem_por_estacao c = Map.empty"
    by (subst d) (simp add: dobra_sem_data iniciais_zero)
  show "contagem_por_tipo_estacao c = Map.empty"
    by (subst d) (simp add: dobra_sem_data iniciais_zero)
qed

lemma celula_ocorrencia:
  "celula (linha_ocorrencia b t d) ''bairro'' = Esc (Texto b)"
  "celula (linha_ocorrencia b t d) ''tipo'' = Esc (Texto t)"
  "celula (linha_ocorrencia b t d) ''data_inicio'' = Esc (Texto d)"
  by (simp_all add: celula_def linha_ocorrencia_def)

lemma contar_tipo_ocorrencia:
  "contar_tipo L True (linha_ocorrencia b t d) (Esc (Texto k)) estacao c =
     (let c1 = c\<lparr>contagem_por_tipo := em_chave (Texto k) (incrementar (Texto t)) (contagem_por_tipo c)\<rparr>
      in if estacao_verdadeira estacao
         then Inr (c1\<lparr>contagem_por_tipo_estacao :=
                        em_chave (Texto k) (em_chave (Texto t) (incrementar (the estacao)))
                          (contagem_por_tipo_estacao c1)\<rparr>)
         else Inr c1)"
  by (simp add: contar_tipo_def celula_ocorrencia Let_def)

lemma contar_linha_ocorrencia:
  "contar_linha L True (Some ''data_inicio'') (linha_ocorrencia b t d) c =
     (case determinar_estacao_hemisferio_sul L (Esc (Texto d)) of
        Inl e \<Rightarrow> Inl e
      | Inr estacao \<Rightarrow>
          (case contar_tipo L True (linha_ocorrencia b t d) (Esc (Texto b)) estacao c of
             Inl e \<Rightarrow> Inl e
           | Inr c1 \<Rightarrow>
               if estacao_verdadeira estacao
               then Inr (c1\<lparr>contagem_por_estacao :=
                              em_chave (Texto b) (incrementar (the estacao)) (contagem_por_estacao c1)\<rparr>)
               else Inr c1))"
  by (simp add: contar_linha_def celula_ocorrencia Let_def split: sum.splits)

lemma contar_cenario:
  assumes "le_datas_do_cenario L"
  shows "contar_ocorrencias_por_bairro L tabela_exemplo = Inr contagens_exemplo"
  by (simp add: contar_ocorrencias_por_bairro_def tabela_exemplo_def colunas_data_def
      contar_linha_ocorrencia contar_tipo_ocorrencia determinar_cenario [OF assms]
      estacao_verdadeira_def em_chave_def incrementar_def contagens_exemplo_def
      celula_ocorrencia Let_def)

lemma contar_so_bairro:
  "contar_ocorrencias_por_bairro L tabela_so_bairro = Inr contagens_so_bairro"
  by (simp add: contar_ocorrencias_por_bairro_def tabela_so_bairro_def colunas_data_def
      contagens_so_bairro_def celula_def incrementar_def numeral_2_eq_2)

lemma contar_sem_data_exemplo:
  "contar_ocorrencias_por_bairro L tabela_sem_data = Inr contagens_sem_data"
  by (simp add: contar_ocorrencias_por_bairro_def tabela_sem_data_def colunas_data_def
      contagens_sem_data_def celula_def incrementar_def em_chave_def contar_linha_def
      contar_tipo_def estacao_verdadeira_def Let_def numeral_2_eq_2 numeral_3_eq_3)

lemma contar_bairro_lista:
  "contar_ocorrencias_por_bairro L tabela_bairro_lista = Inl TypeError"
  by (simp add: contar_ocorrencias_por_bairro_def tabela_bairro_lista_def colunas_data_def
      celula_def Let_def)

text \<open>
  Claim C5. Whenever the aggregator returns, for every neighbourhood the counts of its
  four seasons add up to at most its total count (an absent key counts zero), and the
  keys of its season table are season labels: a row without a classifiable date adds to
  the total and to no season.
\<close>

theorem soma_das_estacoes_no_maximo_total:
  assumes "contar_ocorrencias_por_bairro L gdf = Inr c"
  shows "(\<Sum>s\<leftarrow>estacoes. por_estacao_de c n s) \<le> total_de c n
    \<and> (\<forall>m. contagem_por_estacao c n = Some m \<longrightarrow> dom m \<subseteq> set estacoes)"
proof -
  have "(\<Sum>s\<leftarrow>estacoes. por_estacao_de c n s) \<le> linhas_do_bairro n (linhas gdf)"
  proof (cases "find (\<lambda>col. col \<in> set (colunas gdf)) colunas_data")
    case None
    then show ?thesis by (simp add: contar_por_estacao [OF assms] estacoes_def)
  next
    case (Some col)
    then have "(\<Sum>s\<leftarrow>estacoes. por_estacao_de c n s)
        = (\<Sum>s\<leftarrow>estacoes. linhas_da_estacao L col n s (linhas gdf))"
      by (simp add: contar_por_estacao [OF assms])
    then show ?thesis by (simp add: soma_estacoes_linhas)
  qed
  then have "(\<Sum>s\<leftarrow>estacoes. por_estacao_de c n s) \<le> total_de c n"
    by (simp add: total_de_linhas [OF assms])
  moreover from contar_rotulos [OF assms]
  have "\<forall>m. contagem_por_estacao c n = Some m \<longrightarrow> dom m \<subseteq> set estacoes"
    by (simp add: rotulos_validos_def)
  ultimately show ?thesis by simp
qed

theorem soma_das_estacoes_no_maximo_total_witness:
  "contar_ocorrencias_por_bairro pandas_exemplo tabela_exemplo = Inr contagens_exemplo
   \<and> (\<Sum>s\<leftarrow>estacoes. por_estacao_de contagens_exemplo (Texto ''Norte'') s)
        \<le> total_de contagens_exemplo (Texto ''Norte'')
   \<and> total_de contagens_exemplo (Texto ''Norte'') = 1
   \<and> (\<Sum>s\<leftarrow>estacoes. por_estacao_de contagens_exemplo (Texto ''Norte'') s) = 0
   \<and> total_de contagens_exemplo (Texto ''Centro'') = 1
   \<and> por_estacao_de contagens_exemplo (Texto ''Centro'') ''verao'' = 1"
proof -
  note e = contar_cenario [OF le_datas_exemplo]
  from soma_das_estacoes_no_maximo_total [OF e, of "Texto ''Norte''"]
  have a: "(\<Sum>s\<leftarrow>estacoes. por_estacao_de contagens_exemplo (Texto ''Norte'') s)
        \<le> total_de contagens_exemplo (Texto ''Norte'')"
    by (rule conjunct1)
  have b: "total_de contagens_exemplo (Texto ''Norte'') = 1"
    "(\<Sum>s\<leftarrow>estacoes. por_estacao_de contagens_exemplo (Texto ''Norte'') s) = 0"
    "total_de contagens_exemplo (Texto ''Centro'') = 1"
    "por_estacao_de contagens_exemplo (Texto ''Centro'') ''verao'' = 1"
    by (simp_all add: total_de_def por_estacao_de_def valor_em_def contagens_exemplo_def estacoes_def)
  from e a b show ?thesis by (intro conjI)
qed

lemma sem_coluna_de_data:
  "(find (\<lambda>col. col \<in> set cols) colunas_data = None)
     = (\<forall>col \<in> set colunas_data. col \<notin> set cols)"
  by (auto simp: find_None_iff)

text \<open>
  Claim C4. Without a \<open>bairro\<close> column the aggregator raises the \<open>ValueError\<close> of
  the column check. With the column, and on a table whose neighbourhood and type cells
  are scalars (the occurrence record of the specification: a string or null), it
  returns: so on such tables it raises if and only if the column is absent. Whenever it
  returns, the column is there, the total of a neighbourhood is the number of its rows,
  and what remains of the aggregation is done in full: with a \<open>tipo\<close> column the
  count of a neighbourhood and a type is the number of their rows, and without it the
  function warns and leaves the tables by type empty; with a date column the count of a
  neighbourhood and a season is the number of the rows the classifier gives that season
  (and, with a \<open>tipo\<close> column, likewise for a neighbourhood, a type and a season), and
  without any of the three date columns the function warns and leaves the tables by
  season empty.
\<close>

theorem erro_de_esquema_sse_sem_bairro:
  "(''bairro'' \<notin> set (colunas gdf) \<longrightarrow> contar_ocorrencias_por_bairro L gdf = Inl ValueError)
   \<and> (''bairro'' \<in> set (colunas gdf) \<and> celulas_escalares gdf \<longrightarrow>
        (\<exists>c. contar_ocorrencias_por_bairro L gdf = Inr c))
   \<and> (celulas_escalares gdf \<longrightarrow>
        (contar_ocorrencias_por_bairro L gdf = Inl ValueError \<longleftrightarrow> ''bairro'' \<notin> set (colunas gdf))
        \<and> (\<forall>e. contar_ocorrencias_por_bairro L gdf = Inl e \<longrightarrow> ''bairro'' \<notin> set (colunas gdf)))
   \<and> (\<forall>c. contar_ocorrencias_por_bairro L gdf = Inr c \<longrightarrow>
        ''bairro'' \<in> set (colunas gdf)
        \<and> agrupar_por_bairro (linhas gdf) Map.empty = Inr (contagem_total c)
        \<and> (\<forall>n. total_de c n = linhas_do_bairro n (linhas gdf))
        \<and> (''tipo'' \<in> set (colunas gdf) \<longrightarrow>
              SemColunaTipo \<notin> set (avisos c)
              \<and> (\<forall>n k. por_tipo_de c n k = linhas_do_tipo n k (linhas gdf)))
        \<and> (''tipo'' \<notin> set (colunas gdf) \<longrightarrow>
              SemColunaTipo \<in> set (avisos c)
              \<and> contagem_por_tipo c = Map.empty \<and> contagem_por_tipo_estacao c = Map.empty)
        \<and> (\<forall>col. find (\<lambda>col. col \<in> set (colunas gdf)) colunas_data = Some col \<longrightarrow>
              SemColunaData \<notin> set (avisos c)
              \<and> (\<forall>n s. por_estacao_de c n s = linhas_da_estacao L col n s (linhas gdf))
              \<and> (''tipo'' \<in> set (colunas gdf) \<longrightarrow>
                    (\<forall>n k s. por_tipo_estacao_de c n k s
                       = linhas_do_tipo_estacao L col n k s (linhas gdf))))
        \<and> ((\<forall>col \<in> set colunas_data. col \<notin> set (colunas gdf)) \<longrightarrow>
              SemColunaData \<in> set (avisos c)
              \<and> contagem_por_estacao c = Map.empty \<and> contagem_por_tipo_estacao c = Map.empty))"
proof -
  have sem: "contar_ocorrencias_por_bairro L gdf = Inl ValueError" if "''bairro'' \<notin> set (colunas gdf)"
    using that by (simp add: contar_ocorrencias_por_bairro_def)
  have p1: "''bairro'' \<notin> set (colunas gdf) \<longrightarrow> contar_ocorrencias_por_bairro L gdf = Inl ValueError"
    using sem by (rule impI)
  have ret: "\<exists>c. contar_ocorrencias_por_bairro L gdf = Inr c"
    if "''bairro'' \<in> set (colunas gdf)" and "celulas_escalares gdf"
    using that by (rule contar_escalares)
  have p2: "''bairro'' \<in> set (colunas gdf) \<and> celulas_escalares gdf \<longrightarrow>
        (\<exists>c. contar_ocorrencias_por_bairro L gdf = Inr c)"
    using ret by (intro impI) (elim conjE)
  have p3: "celulas_escalares gdf \<longrightarrow>
        (contar_ocorrencias_por_bairro L gdf = Inl ValueError \<longleftrightarrow> ''bairro'' \<notin> set (colunas gdf))
        \<and> (\<forall>e. contar_ocorrencias_por_bairro L gdf = Inl e \<longrightarrow> ''bairro'' \<notin> set (colunas gdf))"
  proof
    assume e: "celulas_escalares gdf"
    show "(contar_ocorrencias_por_bairro L gdf = Inl ValueError \<longleftrightarrow> ''bairro'' \<notin> set (colunas gdf))
        \<and> (\<forall>e. contar_ocorrencias_por_bairro L gdf = Inl e \<longrightarrow> ''bairro'' \<notin> set (colunas gdf))"
    proof (cases "''bairro'' \<in> set (colunas gdf)")
      case True
      from ret [OF True e] obtain c where "contar_ocorrencias_por_bairro L gdf = Inr c" ..
      with True show ?thesis by simp
    next
      case False
      with sem show ?thesis by simp
    qed
  qed
  have p4: "''bairro'' \<in> set (colunas gdf)
        \<and> agrupar_por_bairro (linhas gdf) Map.empty = Inr (contagem_total c)
        \<and> (\<forall>n. total_de c n = linhas_do_bairro n (linhas gdf))
        \<and> (''tipo'' \<in> set (colunas gdf) \<longrightarrow>
              SemColunaTipo \<notin> set (avisos c)
              \<and> (\<forall>n k. por_tipo_de c n k = linhas_do_tipo n k (linhas gdf)))
        \<and> (''tipo'' \<notin> set (colunas gdf) \<longrightarrow>
              SemColunaTipo \<in> set (avisos c)
              \<and> contagem_por_tipo c = Map.empty \<and> contagem_por_tipo_estacao c = Map.empty)
        \<and> (\<forall>col. find (\<lambda>col. col \<in> set (colunas gdf)) colunas_data = Some col \<longrightarrow>
              SemColunaData \<notin> set (avisos c)
              \<and> (\<forall>n s. por_estacao_de c n s = linhas_da_estacao L col n s (linhas gdf))
              \<and> (''tipo'' \<in> set (colunas gdf) \<longrightarrow>
                    (\<forall>n k s. por_tipo_estacao_de c n k s
                       = linhas_do_tipo_estacao L col n k s (linhas gdf))))
        \<and> ((\<forall>col \<in> set colunas_data. col \<notin> set (colunas gdf)) \<longrightarrow>
              SemColunaData \<in> set (avisos c)
              \<and> contagem_por_estacao c = Map.empty \<and> contagem_por_tipo_estacao c = Map.empty)"
    if r: "contar_ocorrencias_por_bairro L gdf = Inr c" for c
  proof -
    note d = contar_dobra [OF r]
    from d have b: "''bairro'' \<in> set (colunas gdf)" by (rule conjunct1)
    from d have g: "agrupar_por_bairro (linhas gdf) Map.empty = Inr (contagem_total c)"
      by (elim conjE)
    have t: "\<forall>n. total_de c n = linhas_do_bairro n (linhas gdf)"
      using total_de_linhas [OF r] by (rule allI)
    note a = contar_avisos [OF r]
    have ct: "''tipo'' \<in> set (colunas gdf) \<longrightarrow>
              SemColunaTipo \<notin> set (avisos c)
              \<and> (\<forall>n k. por_tipo_de c n k = linhas_do_tipo n k (linhas gdf))"
      by (simp add: a contar_por_tipo [OF r])
    have st: "''tipo'' \<notin> set (colunas gdf) \<longrightarrow>
              SemColunaTipo \<in> set (avisos c)
              \<and> contagem_por_tipo c = Map.empty \<and> contagem_por_tipo_estacao c = Map.empty"
    proof
      assume n: "''tipo'' \<notin> set (colunas gdf)"
      from n a have "SemColunaTipo \<in> set (avisos c)" by simp
      with contar_sem_tipo [OF r n]
      show "SemColunaTipo \<in> set (avisos c)
              \<and> contagem_por_tipo c = Map.empty \<and> contagem_por_tipo_estacao c = Map.empty"
        by (intro conjI)
    qed
    have cdt: "\<forall>col. find (\<lambda>col. col \<in> set (colunas gdf)) colunas_data = Some col \<longrightarrow>
              SemColunaData \<notin> set (avisos c)
              \<and> (\<forall>n s. por_estacao_de c n s = linhas_da_estacao L col n s (linhas gdf))
              \<and> (''tipo'' \<in> set (colunas gdf) \<longrightarrow>
                    (\<forall>n k s. por_tipo_estacao_de c n k s
                       = linhas_do_tipo_estacao L col n k s (linhas gdf)))"
      by (simp add: a contar_por_estacao [OF r] contar_por_tipo_estacao [OF r])
    have sd: "(\<forall>col \<in> set colunas_data. col \<notin> set (colunas gdf)) \<longrightarrow>
              SemColunaData \<in> set (avisos c)
              \<and> contagem_por_estacao c = Map.empty \<and> contagem_por_tipo_estacao c = Map.empty"
    proof
      assume "\<forall>col \<in> set colunas_data. col \<notin> set (colunas gdf)"
      then have n: "find (\<lambda>col. col \<in> set (colunas gdf)) colunas_data = None"
        by (simp only: sem_coluna_de_data)
      from n a have "SemColunaData \<in> set (avisos c)" by simp
      with contar_sem_data [OF r n]
      show "SemColunaData \<in> set (avisos c)
              \<and> contagem_por_estacao c = Map.empty \<and> contagem_por_tipo_estacao c = Map.empty"
        by (intro conjI)
    qed
    from b g t ct st cdt sd show ?thesis by (intro conjI)
  qed
  show ?thesis
    by (rule conjI, rule p1, rule conjI, rule p2, rule conjI, rule p3, rule allI, rule impI,
        erule p4)
qed

lemma escalares_sem_data: "celulas_escalares tabela_sem_data"
  by (simp add: celulas_escalares_def tabela_sem_data_def celula_def)

theorem erro_de_esquema_sse_sem_bairro_witness:
  "''bairro'' \<notin> set (colunas tabela_sem_bairro)
   \<and> contar_ocorrencias_por_bairro pandas_nulo tabela_sem_bairro = Inl ValueError
   \<and> ''bairro'' \<in> set (colunas tabela_sem_data)
   \<and> ''tipo'' \<in> set (colunas tabela_sem_data)
   \<and> celulas_escalares tabela_sem_data
   \<and> contar_ocorrencias_por_bairro pandas_nulo tabela_sem_data = Inr contagens_sem_data
   \<and> SemColunaData \<in> set (avisos contagens_sem_data)
   \<and> contagem_por_estacao contagens_sem_data = Map.empty
   \<and> total_de contagens_sem_data (Texto ''Centro'') = 3
   \<and> por_tipo_de contagens_sem_data (Texto ''Centro'') (Texto ''Alagamento'')
        = linhas_do_tipo (Texto ''Centro'') (Texto ''Alagamento'') (linhas tabela_sem_data)
   \<and> linhas_do_tipo (Texto ''Centro'') (Texto ''Alagamento'') (linhas tabela_sem_data) = 2
   \<and> find (\<lambda>col. col \<in> set (colunas tabela_exemplo)) colunas_data = Some ''data_inicio''
   \<and> contar_ocorrencias_por_bairro pandas_exemplo tabela_exemplo = Inr contagens_exemplo
   \<and> por_estacao_de contagens_exemplo (Texto ''Centro'') ''verao''
        = linhas_da_estacao pandas_exemplo ''data_inicio'' (Texto ''Centro'') ''verao''
            (linhas tabela_exemplo)
   \<and> por_estacao_de contagens_exemplo (Texto ''Centro'') ''verao'' = 1"
proof -
  have n: "''bairro'' \<notin> set (colunas tabela_sem_bairro)"
    by (simp add: tabela_sem_bairro_def)
  have b: "''bairro'' \<in> set (colunas tabela_sem_data)"
    and t: "''tipo'' \<in> set (colunas tabela_sem_data)"
    and sd: "\<forall>col \<in> set colunas_data. col \<notin> set (colunas tabela_sem_data)"
    by (simp_all add: tabela_sem_data_def colunas_data_def)
  note t1 = erro_de_esquema_sse_sem_bairro [where gdf = tabela_sem_bairro and L = pandas_nulo]
  from t1 have "''bairro'' \<notin> set (colunas tabela_sem_bairro) \<longrightarrow>
      contar_ocorrencias_por_bairro pandas_nulo tabela_sem_bairro = Inl ValueError"
    by (rule conjunct1)
  with n have a: "contar_ocorrencias_por_bairro pandas_nulo tabela_sem_bairro = Inl ValueError"
    by (elim impE)
  note t2 = erro_de_esquema_sse_sem_bairro [where gdf = tabela_sem_data and L = pandas_nulo]
  note r = contar_sem_data_exemplo [of pandas_nulo]
  note g = t2 [THEN conjunct2, THEN conjunct2, THEN conjunct2, THEN spec, THEN mp, OF r]
  note g3' = g [THEN conjunct2, THEN conjunct2]
  note g4 = g3' [THEN conjunct2, THEN conjunct1, THEN mp, OF t]
  note g7 = g3' [THEN conjunct2, THEN conjunct2, THEN conjunct2, THEN conjunct2, THEN mp, OF sd]
  have pt: "por_tipo_de contagens_sem_data (Texto ''Centro'') (Texto ''Alagamento'')
        = linhas_do_tipo (Texto ''Centro'') (Texto ''Alagamento'') (linhas tabela_sem_data)"
    by (rule g4 [THEN conjunct2, rule_format])
  have w: "SemColunaData \<in> set (avisos contagens_sem_data)"
    by (rule g7 [THEN conjunct1])
  have e: "contagem_por_estacao contagens_sem_data = Map.empty"
    by (rule g7 [THEN conjunct2, THEN conjunct1])
  have tt: "total_de contagens_sem_data (Texto ''Centro'') = linhas_do_bairro (Texto ''Centro'') (linhas tabela_sem_data)"
    by (rule g3' [THEN conjunct1, rule_format])
  have lb: "linhas_do_bairro (Texto ''Centro'') (linhas tabela_sem_data) = 3"
    by (simp add: linhas_do_bairro_def tabela_sem_data_def bairro_da_linha_def celula_def)
  have lt: "linhas_do_tipo (Texto ''Centro'') (Texto ''Alagamento'') (linhas tabela_sem_data) = 2"
    by (simp add: linhas_do_tipo_def tabela_sem_data_def bairro_da_linha_def tipo_da_linha_def
        celula_def)
  have f: "find (\<lambda>col. col \<in> set (colunas tabela_exemplo)) colunas_data = Some ''data_inicio''"
    by (simp add: tabela_exemplo_def colunas_data_def)
  note t3 = erro_de_esquema_sse_sem_bairro [where gdf = tabela_exemplo and L = pandas_exemplo]
  note r3 = contar_cenario [OF le_datas_exemplo]
  note g3 = t3 [THEN conjunct2, THEN conjunct2, THEN conjunct2, THEN spec, THEN mp, OF r3]
  note g6 = g3 [THEN conjunct2, THEN conjunct2, THEN conjunct2, THEN conjunct2, THEN conjunct2,
      THEN conjunct1, THEN spec, THEN mp, OF f]
  have pe: "por_estacao_de contagens_exemplo (Texto ''Centro'') ''verao''
        = linhas_da_estacao pandas_exemplo ''data_inicio'' (Texto ''Centro'') ''verao''
            (linhas tabela_exemplo)"
    by (rule g6 [THEN conjunct2, THEN conjunct1, rule_format])
  have v: "por_estacao_de contagens_exemplo (Texto ''Centro'') ''verao'' = 1"
    by (simp add: por_estacao_de_def valor_em_def contagens_exemplo_def)
  from tt lb have tt3: "total_de contagens_sem_data (Texto ''Centro'') = 3" by simp
  from n a b t escalares_sem_data r w e tt3 pt lt f r3 pe v show ?thesis by (intro conjI)
qed

lemma bairro_em_lista_levanta:
  "''bairro'' \<in> set (colunas tabela_bairro_lista)
   \<and> \<not> celulas_escalares tabela_bairro_lista
   \<and> contar_ocorrencias_por_bairro L tabela_bairro_lista = Inl TypeError"
  by (simp add: contar_bairro_lista)
     (simp add: tabela_bairro_lista_def celulas_escalares_def celula_def)

lemma itens_do_cenario:
  "map_of itens_total_cenario = contagem_total contagens_exemplo"
  "map_of (map (\<lambda>kv. (fst kv, map_of (snd kv))) itens_estacao_cenario)
     = contagem_por_estacao contagens_exemplo"
  by (rule ext, simp add: itens_total_cenario_def itens_estacao_cenario_def contagens_exemplo_def)+

lemma normalizar_cenario:
  "normalizar P (Texto ''Centro'') = ''Centro''"
  "normalizar P (Texto ''Centro '') = ''Centro''"
  "normalizar P (Texto ''Norte'') = ''Norte''"
  "strip ''verao'' = ''verao''"
  "strip ''inverno'' = ''inverno''"
  by (simp_all add: normalizar_def str_de_def strip_def espaco_def)

text \<open>
  Claim C1. In the scenario of the three occurrences the aggregator counts each
  neighbourhood name as it is written: one occurrence for \<open>Centro\<close>, one for
  \<open>Centro\<close> followed by a space, one for \<open>Norte\<close>. The enricher then trims the keys
  of these tables in a dict comprehension, where the two keys collide and the later
  entry replaces the earlier instead of being added to it: the normalised total of
  \<open>Centro\<close> is one, not the two the specification expects, and its normalised season
  table is one winter, with no summer. The splitter puts the first record in the summer
  partition, the second in the winter partition and the third in no partition.
\<close>

theorem cenario_normalizacao_sobrescreve:
  "contar_ocorrencias_por_bairro pandas_exemplo tabela_exemplo = Inr contagens_exemplo
   \<and> map_of itens_total_cenario = contagem_total contagens_exemplo
   \<and> contagem_total contagens_exemplo (Texto ''Centro'') = Some 1
   \<and> contagem_total contagens_exemplo (Texto ''Centro '') = Some 1
   \<and> total_esperado_spec (Texto ''Centro'') = Some 2
   \<and> contagem_total_normalizada P itens_total_cenario = [(''Centro'', 1), (''Norte'', 1)]
   \<and> obter (contagem_total_normalizada P itens_total_cenario) ''Centro'' = 1
   \<and> map_of (map (\<lambda>kv. (fst kv, map_of (snd kv))) itens_estacao_cenario)
        = contagem_por_estacao contagens_exemplo
   \<and> contagem_por_estacao_normalizada P itens_estacao_cenario = [(''Centro'', [(''inverno'', 1)])]
   \<and> obter (obter_dict (contagem_por_estacao_normalizada P itens_estacao_cenario) ''Centro'') ''verao'' = 0
   \<and> extrair_ocorrencias_por_estacao pandas_exemplo documento_exemplo = Inr agrupamento_exemplo
   \<and> particao agrupamento_exemplo ''verao'' = [registro1]
   \<and> particao agrupamento_exemplo ''inverno'' = [registro2]
   \<and> particao agrupamento_exemplo ''outono'' = []
   \<and> particao agrupamento_exemplo ''primavera'' = []"
proof -
  note a = contar_cenario [OF le_datas_exemplo] and b = extrair_cenario [OF le_datas_exemplo]
  have c: "contagem_total contagens_exemplo (Texto ''Centro'') = Some 1"
    "contagem_total contagens_exemplo (Texto ''Centro '') = Some 1"
    by (simp_all add: contagens_exemplo_def)
  have d: "total_esperado_spec (Texto ''Centro'') = Some 2"
    by (simp add: total_esperado_spec_def)
  have n: "contagem_total_normalizada P itens_total_cenario = [(''Centro'', 1), (''Norte'', 1)]"
    by (simp add: contagem_total_normalizada_def compreensao_def itens_total_cenario_def
        normalizar_cenario)
  have o: "obter (contagem_total_normalizada P itens_total_cenario) ''Centro'' = 1"
    by (simp add: n obter_def)
  have e: "contagem_por_estacao_normalizada P itens_estacao_cenario = [(''Centro'', [(''inverno'', 1)])]"
    by (simp add: contagem_por_estacao_normalizada_def compreensao_def itens_estacao_cenario_def
        normalizar_cenario normalizar_estacoes_def)
  have v: "obter (obter_dict (contagem_por_estacao_normalizada P itens_estacao_cenario) ''Centro'') ''verao'' = 0"
    by (simp add: e obter_def obter_dict_def)
  have p: "particao agrupamento_exemplo ''verao'' = [registro1]"
    "particao agrupamento_exemplo ''inverno'' = [registro2]"
    "particao agrupamento_exemplo ''outono'' = []"
    "particao agrupamento_exemplo ''primavera'' = []"
    by (simp_all add: particao_def agrupamento_exemplo_def)
  from a itens_do_cenario(1) c d n o itens_do_cenario(2) e v b p show ?thesis by (intro conjI)
qed

end
